theory Spec2Isabelle
  imports Complex_Main "HOL-Library.Word"
begin

section \<open>Fury3D textures and the temporary texture pool (engine/Fury/Texture.cpp)\<close>

text \<open>
  The development embeds \<^verbatim>\<open>Texture.cpp\<close>: the texture object with its lazily created
  OpenGL buffer, the byte accounting it reports to the buffer manager, the pool of
  temporary textures keyed by shape, and the JSON load and save of a texture.

  C++ \<^verbatim>\<open>int\<close> is a 32 bit word read as two's complement (\<open>sint\<close>); signed overflow,
  undefined in C++, wraps in the model. \<^verbatim>\<open>unsigned int\<close> byte sizes are 32 bit words.
\<close>

subsection \<open>Enumerations and values\<close>

text \<open>
  The enumerations are declared in \<^verbatim>\<open>EnumUtil.h\<close>, which is not part of the sources at
  hand. Each datatype lists the members \<^verbatim>\<open>Texture.cpp\<close> names and keeps the remaining
  members open under one numbered constructor.
\<close>

datatype TextureFormat =
  UNKNOW | SRGB | SRGB8 | SRGB8_ALPHA8 | SRGB_ALPHA | RGB8 | RGBA8 | OtherFormat nat

datatype TextureType = TEXTURE_2D | TEXTURE_2D_ARRAY | OtherType nat

datatype FilterMode = LINEAR | OtherFilter nat

datatype WrapMode = REPEAT | OtherWrap nat

text \<open>A colour is four float components; the model reads finite floats as reals.\<close>

datatype Color = Color real real real real

type_synonym cint = "32 word"

type_synonym cuint = "32 word"

subsection \<open>What Texture.cpp takes from the rest of the engine\<close>

text \<open>
  \<^verbatim>\<open>EnumUtil\<close>, \<^verbatim>\<open>FileUtil::LoadImage\<close>, \<^verbatim>\<open>Color::Black\<close> and the default argument
  of \<^verbatim>\<open>CreateEmpty\<close> are defined outside \<^verbatim>\<open>Texture.cpp\<close>; every function of the
  model takes them as the parameter \<open>ex\<close>.
  \<open>LoadImage ex path w h\<close> stands for
  \<^verbatim>\<open>FileUtil::LoadImage(Scene::Path(path), pixels, w, h, channels)\<close>: it returns the
  success flag, the two integers it leaves in the references \<^verbatim>\<open>w\<close> and \<^verbatim>\<open>h\<close>, and
  the channel count.
\<close>

record Extern =
  TextureFormatToString :: "TextureFormat \<Rightarrow> string"
  TextureFormatFromString :: "string \<Rightarrow> TextureFormat"
  TextureTypeToString :: "TextureType \<Rightarrow> string"
  TextureTypeFromString :: "string \<Rightarrow> TextureType"
  FilterModeToString :: "FilterMode \<Rightarrow> string"
  FilterModeFromString :: "string \<Rightarrow> FilterMode"
  WrapModeToString :: "WrapMode \<Rightarrow> string"
  WrapModeFromString :: "string \<Rightarrow> WrapMode"
  TextureBitPerPixel :: "TextureFormat \<Rightarrow> cuint"
  TextureTypeToUnit :: "TextureType \<Rightarrow> nat"
  LoadImage :: "string \<Rightarrow> cint \<Rightarrow> cint \<Rightarrow> bool \<times> cint \<times> cint \<times> int"
  Color_Black :: Color
  CreateEmpty_mipMap_default :: bool

subsection \<open>The texture object\<close>

record Texture =
  m_Name :: string
  m_ID :: nat
  m_Width :: cint
  m_Height :: cint
  m_Depth :: cint
  m_Format :: TextureFormat
  m_Type :: TextureType
  m_TypeUint :: nat
  m_FilterMode :: FilterMode
  m_WrapMode :: WrapMode
  m_BorderColor :: Color
  m_Mipmap :: bool
  m_Dirty :: bool
  m_FilePath :: string

text \<open>
  The process-wide state a texture method touches: the byte total of the buffer manager,
  and the texture names of the OpenGL context.

  Modelled from the spec: \<^verbatim>\<open>BufferManager::IncreaseMemory\<close> and
  \<^verbatim>\<open>BufferManager::DecreaseMemory\<close> (BufferManager.cpp is not at hand). The spec
  tracks resident memory "as a running byte count, incremented on allocation,
  decremented on deletion"; \<open>bm_memory\<close> is that count.

  OpenGL is an external library: \<open>glGenTextures\<close> hands out a name that was never
  used before and is not zero, \<open>glDeleteTextures\<close> retires a name.
\<close>

record Device =
  bm_memory :: int
  gl_counter :: nat
  gl_live :: "nat set"

definition BufferManager_IncreaseMemory :: "cuint \<Rightarrow> Device \<Rightarrow> Device" where
  "BufferManager_IncreaseMemory byte d = d\<lparr>bm_memory := bm_memory d + uint byte\<rparr>"

definition BufferManager_DecreaseMemory :: "cuint \<Rightarrow> Device \<Rightarrow> Device" where
  "BufferManager_DecreaseMemory byte d = d\<lparr>bm_memory := bm_memory d - uint byte\<rparr>"

definition glGenTextures :: "Device \<Rightarrow> nat \<times> Device" where
  "glGenTextures d =
     (Suc (gl_counter d),
      d\<lparr>gl_counter := Suc (gl_counter d), gl_live := insert (Suc (gl_counter d)) (gl_live d)\<rparr>)"

definition glDeleteTextures :: "nat \<Rightarrow> Device \<Rightarrow> Device" where
  "glDeleteTextures n d = d\<lparr>gl_live := gl_live d - {n}\<rparr>"

text \<open>
  The argument of \<^verbatim>\<open>IncreaseMemory\<close> and \<^verbatim>\<open>DecreaseMemory\<close>:
  \<^verbatim>\<open>m_Width * m_Height * (m_Depth + 1) * bitPerPixel / 8\<close>, an unsigned 32 bit
  expression, since \<^verbatim>\<open>bitPerPixel\<close> is unsigned.
\<close>

definition footprint :: "Extern \<Rightarrow> Texture \<Rightarrow> cuint" where
  "footprint ex t =
     (m_Width t * m_Height t * (m_Depth t + 1) * TextureBitPerPixel ex (m_Format t)) div 8"

definition IncreaseMemory :: "Extern \<Rightarrow> Texture \<Rightarrow> Device \<Rightarrow> Device" where
  "IncreaseMemory ex t d = BufferManager_IncreaseMemory (footprint ex t) d"

definition DecreaseMemory :: "Extern \<Rightarrow> Texture \<Rightarrow> Device \<Rightarrow> Device" where
  "DecreaseMemory ex t d = BufferManager_DecreaseMemory (footprint ex t) d"

definition DeleteBuffer :: "Extern \<Rightarrow> Texture \<times> Device \<Rightarrow> Texture \<times> Device" where
  "DeleteBuffer ex td =
     (let t = (fst td)\<lparr>m_Dirty := True\<rparr>; d = snd td
      in if m_ID t \<noteq> 0
         then (t\<lparr>m_ID := 0, m_Width := 0, m_Height := 0, m_Format := UNKNOW, m_FilePath := []\<rparr>,
               glDeleteTextures (m_ID t) (DecreaseMemory ex t d))
         else (t, d))"

definition CreateEmpty ::
  "Extern \<Rightarrow> cint \<Rightarrow> cint \<Rightarrow> cint \<Rightarrow> TextureFormat \<Rightarrow> TextureType \<Rightarrow> bool \<Rightarrow>
   Texture \<times> Device \<Rightarrow> Texture \<times> Device" where
  "CreateEmpty ex width height depth format type mipMap td =
     (let td1 = DeleteBuffer ex td
      in if format = UNKNOW then td1
         else
           let t1 = (fst td1)\<lparr>m_Mipmap := mipMap, m_Format := format, m_Dirty := False,
                       m_Width := width, m_Height := height, m_Depth := depth,
                       m_Type := type, m_TypeUint := TextureTypeToUnit ex type\<rparr>;
               gen = glGenTextures (snd td1);
               t2 = t1\<lparr>m_ID := fst gen\<rparr>
           in (t2, IncreaseMemory ex t2 (snd gen)))"

definition CreateFromImage ::
  "Extern \<Rightarrow> string \<Rightarrow> bool \<Rightarrow> bool \<Rightarrow> Texture \<times> Device \<Rightarrow> Texture \<times> Device" where
  "CreateFromImage ex filePath srgb mipMap td =
     (let td1 = DeleteBuffer ex td;
          img = LoadImage ex filePath (m_Width (fst td1)) (m_Height (fst td1));
          channels = snd (snd (snd img));
          t1 = (fst td1)\<lparr>m_Width := fst (snd img), m_Height := fst (snd (snd img))\<rparr>
      in if fst img
         then
           if channels = 3 \<or> channels = 4
           then
             let t2 = t1\<lparr>m_Format :=
                         (if channels = 3 then (if srgb then SRGB8 else RGB8)
                          else (if srgb then SRGB8_ALPHA8 else RGBA8)),
                        m_Depth := 0, m_Mipmap := mipMap, m_FilePath := filePath,
                        m_Dirty := False\<rparr>;
                 gen = glGenTextures (snd td1);
                 t3 = t2\<lparr>m_ID := fst gen\<rparr>
             in (t3, IncreaseMemory ex t3 (snd gen))
           else (t1\<lparr>m_Format := UNKNOW\<rparr>, snd td1)
         else (t1, snd td1))"

definition IsSRGB :: "Texture \<Rightarrow> bool" where
  "IsSRGB t \<longleftrightarrow>
     m_Format t = SRGB \<or> m_Format t = SRGB8 \<or> m_Format t = SRGB8_ALPHA8 \<or> m_Format t = SRGB_ALPHA"

definition UpdateBuffer :: "Extern \<Rightarrow> Texture \<times> Device \<Rightarrow> Texture \<times> Device" where
  "UpdateBuffer ex td =
     (let t = fst td
      in if m_ID t > 0 \<or> \<not> m_Dirty t then td
         else
           let t1 = t\<lparr>m_Dirty := False\<rparr>
           in if length (m_FilePath t1) > 0
              then CreateFromImage ex (m_FilePath t1) (IsSRGB t1) (m_Mipmap t1) (t1, snd td)
              else CreateEmpty ex (m_Width t1) (m_Height t1) (m_Depth t1) (m_Format t1)
                     (m_Type t1) (m_Mipmap t1) (t1, snd td))"

text \<open>
  The setters change the field when the new value differs; the OpenGL parameter calls
  they make on an allocated texture leave the modelled state alone.
\<close>

definition SetFilterMode :: "FilterMode \<Rightarrow> Texture \<Rightarrow> Texture" where
  "SetFilterMode mode t = (if m_FilterMode t \<noteq> mode then t\<lparr>m_FilterMode := mode\<rparr> else t)"

definition SetWrapMode :: "WrapMode \<Rightarrow> Texture \<Rightarrow> Texture" where
  "SetWrapMode mode t = (if m_WrapMode t \<noteq> mode then t\<lparr>m_WrapMode := mode\<rparr> else t)"

definition SetBorderColor :: "Color \<Rightarrow> Texture \<Rightarrow> Texture" where
  "SetBorderColor color t = (if m_BorderColor t \<noteq> color then t\<lparr>m_BorderColor := color\<rparr> else t)"

subsection \<open>Shape keys\<close>

text \<open>
  \<^verbatim>\<open>ss << width\<close> writes a C++ int in decimal, with a minus sign when negative.
\<close>

definition digit_char :: "nat \<Rightarrow> char" where
  "digit_char d = ''0123456789'' ! d"

function show_nat :: "nat \<Rightarrow> string" where
  "show_nat n =
     (if n < 10 then [digit_char n] else show_nat (n div 10) @ [digit_char (n mod 10)])"
  by pat_completeness auto
termination
  by (relation "measure id") auto

definition show_int :: "int \<Rightarrow> string" where
  "show_int i = (if i < 0 then CHR ''-'' # show_nat (nat (- i)) else show_nat (nat i))"

definition GetKeyFromParams ::
  "Extern \<Rightarrow> cint \<Rightarrow> cint \<Rightarrow> cint \<Rightarrow> TextureFormat \<Rightarrow> TextureType \<Rightarrow> string" where
  "GetKeyFromParams ex width height depth format type =
     show_int (sint width) @ ''*'' @ show_int (sint height) @ ''*'' @ show_int (sint depth) @ ''*''
       @ TextureFormatToString ex format @ ''*'' @ TextureTypeToString ex type"

definition GetKeyFromPtr :: "Extern \<Rightarrow> Texture \<Rightarrow> string" where
  "GetKeyFromPtr ex t =
     GetKeyFromParams ex (m_Width t) (m_Height t) (m_Depth t) (m_Format t) (m_Type t)"

subsection \<open>Objects, the buffer manager's registry and the pool\<close>

text \<open>
  Modelled from the spec: the in-class member initialisers of \<^verbatim>\<open>Texture.h\<close> (not at
  hand). The spec lets a resource be declared before its allocation exists: a new texture
  is unallocated (id 0), has no dimensions, format \<open>UNKNOW\<close> and no file path. The
  constructor body of \<^verbatim>\<open>Texture.cpp\<close> sets the name, the border colour (0, 0, 0, 0) and
  \<open>m_TypeUint\<close>.
\<close>

definition Texture_new :: "Extern \<Rightarrow> string \<Rightarrow> Texture" where
  "Texture_new ex name =
     \<lparr>m_Name = name, m_ID = 0, m_Width = 0, m_Height = 0, m_Depth = 0, m_Format = UNKNOW,
      m_Type = TEXTURE_2D, m_TypeUint = TextureTypeToUnit ex TEXTURE_2D,
      m_FilterMode = LINEAR, m_WrapMode = REPEAT, m_BorderColor = Color 0 0 0 0,
      m_Mipmap = False, m_Dirty = True, m_FilePath = []\<rparr>"

text \<open>
  A \<^verbatim>\<open>shared_ptr<Texture>\<close> is an address into \<open>heap\<close>; \<^verbatim>\<open>make_shared\<close> takes the
  address \<open>next_ptr\<close>. The static \<^verbatim>\<open>m_TexturePool\<close>, an unordered map from key to a
  stack of pointers, is an association list in insertion order; a stack is a list with
  its top at the head.

  Modelled from the spec: \<^verbatim>\<open>BufferManager::Add\<close> and \<^verbatim>\<open>BufferManager::Release\<close>
  (BufferManager.cpp is not at hand). The spec has a new resource "registered" and
  a release "deallocate" it: \<open>bm_buffers\<close> is the set of registered buffers, a buffer's
  id (\<^verbatim>\<open>GetBufferId\<close>) is its address, and releasing a registered id deletes that
  buffer.
\<close>

record World =
  heap :: "nat \<Rightarrow> Texture option"
  next_ptr :: nat
  m_TexturePool :: "(string \<times> nat list) list"
  bm_buffers :: "nat set"
  device :: Device

text \<open>A method call through a pointer; a pointer to no object leaves the state alone.\<close>

definition invoke :: "(Texture \<times> Device \<Rightarrow> Texture \<times> Device) \<Rightarrow> nat \<Rightarrow> World \<Rightarrow> World" where
  "invoke method p w =
     (case heap w p of
        None \<Rightarrow> w
      | Some t \<Rightarrow>
          (let td = method (t, device w)
           in w\<lparr>heap := (heap w)(p \<mapsto> fst td), device := snd td\<rparr>))"

definition BufferManager_Add :: "nat \<Rightarrow> World \<Rightarrow> World" where
  "BufferManager_Add p w = w\<lparr>bm_buffers := insert p (bm_buffers w)\<rparr>"

definition BufferManager_Release :: "Extern \<Rightarrow> nat \<Rightarrow> World \<Rightarrow> World" where
  "BufferManager_Release ex bid w =
     (if bid \<in> bm_buffers w then invoke (DeleteBuffer ex) bid w else w)"

definition Texture_Create :: "Extern \<Rightarrow> string \<Rightarrow> World \<Rightarrow> nat \<times> World" where
  "Texture_Create ex name w =
     (let ptr = next_ptr w;
          w1 = w\<lparr>heap := (heap w)(ptr \<mapsto> Texture_new ex name), next_ptr := Suc ptr\<rparr>
      in (ptr, BufferManager_Add ptr w1))"

definition set_stack :: "string \<Rightarrow> nat list \<Rightarrow> (string \<times> nat list) list \<Rightarrow> (string \<times> nat list) list" where
  "set_stack key s pool = map (\<lambda>(k, st). if k = key then (k, s) else (k, st)) pool"

definition GetTempory ::
  "Extern \<Rightarrow> cint \<Rightarrow> cint \<Rightarrow> cint \<Rightarrow> TextureFormat \<Rightarrow> TextureType \<Rightarrow> World \<Rightarrow> nat \<times> World" where
  "GetTempory ex width height depth format type w =
     (let key = GetKeyFromParams ex width height depth format type
      in case map_of (m_TexturePool w) key of
           Some (texture # rest) \<Rightarrow>
             (texture, w\<lparr>m_TexturePool := set_stack key rest (m_TexturePool w)\<rparr>)
         | _ \<Rightarrow>
             (let cr = Texture_Create ex key w;
                  texture = fst cr;
                  w1 = invoke (CreateEmpty ex width height depth format type
                                 (CreateEmpty_mipMap_default ex)) texture (snd cr)
              in (texture, BufferManager_Add texture w1)))"

text \<open>
  \<^verbatim>\<open>CollectTempory\<close> reads the key through the pointer; on a pointer to no object
  (a null \<^verbatim>\<open>shared_ptr\<close>) the C++ has no defined result, and the model returns \<open>None\<close>.
\<close>

definition CollectTempory :: "Extern \<Rightarrow> nat \<Rightarrow> World \<Rightarrow> World option" where
  "CollectTempory ex ptr w =
     (case heap w ptr of
        None \<Rightarrow> None
      | Some t \<Rightarrow>
          (let key = GetKeyFromPtr ex t;
               pool = (if map_of (m_TexturePool w) key = None
                       then m_TexturePool w @ [(key, [])] else m_TexturePool w);
               stack = (case map_of pool key of Some s \<Rightarrow> s | None \<Rightarrow> [])
           in Some (w\<lparr>m_TexturePool := set_stack key (ptr # stack) pool\<rparr>)))"

text \<open>
  \<^verbatim>\<open>for (auto pair : m_TexturePool)\<close> copies each entry: the inner loop pops the copy's
  stack, which is dropped at the end of the iteration, and \<^verbatim>\<open>m_TexturePool\<close> itself
  is not written.
\<close>

fun ReleaseTempories_while :: "Extern \<Rightarrow> nat list \<Rightarrow> World \<Rightarrow> nat list \<times> World" where
  "ReleaseTempories_while ex [] w = ([], w)"
| "ReleaseTempories_while ex (texture # stack) w =
     ReleaseTempories_while ex stack (BufferManager_Release ex texture w)"

fun ReleaseTempories_for :: "Extern \<Rightarrow> (string \<times> nat list) list \<Rightarrow> World \<Rightarrow> World" where
  "ReleaseTempories_for ex [] w = w"
| "ReleaseTempories_for ex (pair # pairs) w =
     ReleaseTempories_for ex pairs (snd (ReleaseTempories_while ex (snd pair) w))"

definition ReleaseTempories :: "Extern \<Rightarrow> World \<Rightarrow> World" where
  "ReleaseTempories ex w = ReleaseTempories_for ex (m_TexturePool w) w"

text \<open>
  For stating what \<^verbatim>\<open>ReleaseTempories\<close> does: the pointers on the free stacks of a
  state, and the bytes the buffer manager takes off its total when the buffer behind a
  pointer is released (the footprint of a registered, allocated texture; nothing
  otherwise).
\<close>

definition pooled :: "World \<Rightarrow> nat list" where
  "pooled w = concat (map snd (m_TexturePool w))"

definition freed_bytes :: "Extern \<Rightarrow> World \<Rightarrow> nat \<Rightarrow> int" where
  "freed_bytes ex w p =
     (case heap w p of
        None \<Rightarrow> 0
      | Some t \<Rightarrow> if p \<in> bm_buffers w \<and> m_ID t \<noteq> 0 then uint (footprint ex t) else 0)"

text \<open>
  The invariant of the pool: every pointer on a free stack is an object made earlier,
  and the texture behind it has the key of the stack it is on.
\<close>

definition pool_keyed :: "Extern \<Rightarrow> World \<Rightarrow> bool" where
  "pool_keyed ex w \<longleftrightarrow>
     (\<forall>(k, s) \<in> set (m_TexturePool w). \<forall>p \<in> set s.
        p < next_ptr w \<and> (\<exists>t. heap w p = Some t \<and> GetKeyFromPtr ex t = k))"

subsection \<open>Load and Save\<close>

text \<open>
  Modelled from the spec: the writer calls of the serialisation layer
  (\<^verbatim>\<open>StartObject\<close>, \<^verbatim>\<open>EndObject\<close>, \<^verbatim>\<open>SaveKey\<close>, \<^verbatim>\<open>SaveValue\<close>, and
  \<^verbatim>\<open>Entity::Save\<close>; Serializable.cpp and Entity.cpp are not at hand). The spec calls the
  saved form a declarative document; here a document is the sequence of the writer calls
  made, and an entity saves its name.
\<close>

datatype token =
  T_StartObject | T_EndObject | T_Key string
  | T_String string | T_Int cint | T_Bool bool | T_Color Color

definition StartObject :: "token list \<Rightarrow> token list" where
  "StartObject wrapper = wrapper @ [T_StartObject]"

definition EndObject :: "token list \<Rightarrow> token list" where
  "EndObject wrapper = wrapper @ [T_EndObject]"

definition SaveKey :: "string \<Rightarrow> token list \<Rightarrow> token list" where
  "SaveKey key wrapper = wrapper @ [T_Key key]"

definition SaveValue :: "token \<Rightarrow> token list \<Rightarrow> token list" where
  "SaveValue v wrapper = wrapper @ [v]"

definition Entity_Save :: "Texture \<Rightarrow> token list \<Rightarrow> token list" where
  "Entity_Save t wrapper = SaveValue (T_String (m_Name t)) (SaveKey ''name'' wrapper)"

definition Save :: "Extern \<Rightarrow> Texture \<Rightarrow> bool \<Rightarrow> token list \<Rightarrow> token list" where
  "Save ex t object wrapper =
     (let w1 = (if object then StartObject wrapper else wrapper);
          w2 = Entity_Save t w1;
          w3 = (if m_FilePath t = []
                then
                  SaveValue (T_Int (m_Depth t)) (SaveKey ''depth''
                  (SaveValue (T_Int (m_Height t)) (SaveKey ''height''
                  (SaveValue (T_Int (m_Width t)) (SaveKey ''width''
                  (SaveValue (T_String (TextureTypeToString ex (m_Type t))) (SaveKey ''type''
                  (SaveValue (T_String (TextureFormatToString ex (m_Format t))) (SaveKey ''format''
                   w2)))))))))
                else
                  SaveValue (T_Bool (m_Format t = SRGB \<or> m_Format t = SRGB8 \<or>
                                     m_Format t = SRGB8_ALPHA8 \<or> m_Format t = SRGB_ALPHA))
                  (SaveKey ''srgb''
                  (SaveValue (T_String (m_FilePath t)) (SaveKey ''path'' w2))));
          w4 = SaveValue (T_Bool (m_Mipmap t)) (SaveKey ''mipmap''
               (SaveValue (T_Color (m_BorderColor t)) (SaveKey ''borderColor'' w3)));
          w5 = SaveValue (T_String (WrapModeToString ex (m_WrapMode t))) (SaveKey ''wrap''
               (SaveValue (T_String (FilterModeToString ex (m_FilterMode t))) (SaveKey ''filter''
                w4)))
      in if object then EndObject w5 else w5)"

text \<open>
  The reading side (\<^verbatim>\<open>IsObject\<close>, \<^verbatim>\<open>LoadMemberValue\<close> for each value type, and
  \<^verbatim>\<open>Entity::Load(wrapper, false)\<close>) is defined outside \<^verbatim>\<open>Texture.cpp\<close> as well;
  \<^verbatim>\<open>Load\<close> takes it as the parameter \<open>rd\<close>, over any type \<open>'w\<close> of JSON nodes.
  \<open>LoadMemberValue\<close> returning \<open>None\<close> is the C++ returning false and leaving its
  output argument alone. \<open>Entity_Load rd node name\<close> returns the success flag and
  the entity name it leaves.
\<close>

record 'w Reader =
  IsObject :: "'w \<Rightarrow> bool"
  Entity_Load :: "'w \<Rightarrow> string \<Rightarrow> bool \<times> string"
  LoadMemberValue_string :: "'w \<Rightarrow> string \<Rightarrow> string option"
  LoadMemberValue_int :: "'w \<Rightarrow> string \<Rightarrow> cint option"
  LoadMemberValue_bool :: "'w \<Rightarrow> string \<Rightarrow> bool option"
  LoadMemberValue_Color :: "'w \<Rightarrow> string \<Rightarrow> Color option"

definition Load ::
  "Extern \<Rightarrow> 'w Reader \<Rightarrow> 'w \<Rightarrow> bool \<Rightarrow> Texture \<times> Device \<Rightarrow> bool \<times> Texture \<times> Device" where
  "Load ex rd wrapper object td =
     (if object \<and> \<not> IsObject rd wrapper then (False, td)
      else
        let el = Entity_Load rd wrapper (m_Name (fst td));
            t0 = (fst td)\<lparr>m_Name := snd el\<rparr>
        in if \<not> fst el then (False, t0, snd td)
           else
             let filterMode = (case LoadMemberValue_string rd wrapper ''filter'' of
                                 Some str \<Rightarrow> FilterModeFromString ex str | None \<Rightarrow> LINEAR);
                 wrapMode = (case LoadMemberValue_string rd wrapper ''wrap'' of
                               Some str \<Rightarrow> WrapModeFromString ex str | None \<Rightarrow> REPEAT);
                 color = (case LoadMemberValue_Color rd wrapper ''borderColor'' of
                            Some c \<Rightarrow> c | None \<Rightarrow> Color_Black ex);
                 t1 = SetBorderColor color t0;
                 mipmap = (case LoadMemberValue_bool rd wrapper ''mipmap'' of
                             Some b \<Rightarrow> b | None \<Rightarrow> False);
                 t2 = SetWrapMode wrapMode (SetFilterMode filterMode t1)
             in case LoadMemberValue_string rd wrapper ''path'' of
                  Some path \<Rightarrow>
                    (let srgb = (case LoadMemberValue_bool rd wrapper ''srgb'' of
                                   Some b \<Rightarrow> b | None \<Rightarrow> False)
                     in (True, CreateFromImage ex path srgb mipmap (t2, snd td)))
                | None \<Rightarrow>
                    (case LoadMemberValue_string rd wrapper ''format'' of
                       None \<Rightarrow> (False, t2, snd td)
                     | Some fstr \<Rightarrow>
                         (let format = TextureFormatFromString ex fstr;
                              type = TextureTypeFromString ex
                                       (case LoadMemberValue_string rd wrapper ''type'' of
                                          Some str \<Rightarrow> str
                                        | None \<Rightarrow> TextureTypeToString ex TEXTURE_2D)
                          in case LoadMemberValue_int rd wrapper ''width'' of
                               None \<Rightarrow> (False, t2, snd td)
                             | Some width \<Rightarrow>
                                 (case LoadMemberValue_int rd wrapper ''height'' of
                                    None \<Rightarrow> (False, t2, snd td)
                                  | Some height \<Rightarrow>
                                      (let depth = (case LoadMemberValue_int rd wrapper ''depth'' of
                                                      Some x \<Rightarrow> x | None \<Rightarrow> 0)
                                       in (True, CreateEmpty ex width height depth format type
                                                   mipmap (t2, snd td)))))))"

text \<open>
  Modelled from the spec: a reader for the documents \<open>Save\<close> writes (the reading side of
  Serializable.cpp and \<^verbatim>\<open>Entity::Load\<close> are not at hand). The spec asks that a saved
  document loads again: a member is the value that follows its key, read when it has
  the type asked for, and an entity loads its name and fails without one.
\<close>

fun find_member :: "string \<Rightarrow> token list \<Rightarrow> token option" where
  "find_member name (T_Key k # v # rest) = (if k = name then Some v else find_member name rest)"
| "find_member name (x # rest) = find_member name rest"
| "find_member name [] = None"

definition Document_Reader :: "token list Reader" where
  "Document_Reader =
     \<lparr>IsObject = (\<lambda>doc. case doc of T_StartObject # _ \<Rightarrow> True | _ \<Rightarrow> False),
      Entity_Load = (\<lambda>doc name. case find_member ''name'' doc of
                                    Some (T_String s) \<Rightarrow> (True, s) | _ \<Rightarrow> (False, name)),
      LoadMemberValue_string = (\<lambda>doc name. case find_member name doc of
                                               Some (T_String s) \<Rightarrow> Some s | _ \<Rightarrow> None),
      LoadMemberValue_int = (\<lambda>doc name. case find_member name doc of
                                            Some (T_Int i) \<Rightarrow> Some i | _ \<Rightarrow> None),
      LoadMemberValue_bool = (\<lambda>doc name. case find_member name doc of
                                             Some (T_Bool b) \<Rightarrow> Some b | _ \<Rightarrow> None),
      LoadMemberValue_Color = (\<lambda>doc name. case find_member name doc of
                                              Some (T_Color c) \<Rightarrow> Some c | _ \<Rightarrow> None)\<rparr>"

subsection \<open>A concrete engine for running the code\<close>

text \<open>
  Modelled from the spec: the tables of \<^verbatim>\<open>EnumUtil\<close>, the image loader, \<^verbatim>\<open>Color::Black\<close>
  and the default of \<^verbatim>\<open>CreateEmpty\<close>'s last argument (none is at hand, and the spec fixes
  none of them). \<open>Engine\<close> is one choice of them, on which the functions above are
  evaluated at concrete inputs: lower-case member names, 24 or 32 bits per pixel, the
  OpenGL target constants, and one loadable image of 2 by 2 pixels and 4 channels.
\<close>

definition Engine :: Extern where
  "Engine =
     \<lparr>TextureFormatToString =
        (\<lambda>f. case f of UNKNOW \<Rightarrow> ''unknow'' | SRGB \<Rightarrow> ''srgb'' | SRGB8 \<Rightarrow> ''srgb8''
           | SRGB8_ALPHA8 \<Rightarrow> ''srgb8_alpha8'' | SRGB_ALPHA \<Rightarrow> ''srgb_alpha''
           | RGB8 \<Rightarrow> ''rgb8'' | RGBA8 \<Rightarrow> ''rgba8'' | OtherFormat n \<Rightarrow> ''format'' @ show_nat n),
      TextureFormatFromString =
        (\<lambda>s. if s = ''srgb'' then SRGB else if s = ''srgb8'' then SRGB8
           else if s = ''srgb8_alpha8'' then SRGB8_ALPHA8
           else if s = ''srgb_alpha'' then SRGB_ALPHA
           else if s = ''rgb8'' then RGB8 else if s = ''rgba8'' then RGBA8 else UNKNOW),
      TextureTypeToString =
        (\<lambda>ty. case ty of TEXTURE_2D \<Rightarrow> ''2d'' | TEXTURE_2D_ARRAY \<Rightarrow> ''2d_array''
           | OtherType n \<Rightarrow> ''type'' @ show_nat n),
      TextureTypeFromString = (\<lambda>s. if s = ''2d_array'' then TEXTURE_2D_ARRAY else TEXTURE_2D),
      FilterModeToString =
        (\<lambda>m. case m of LINEAR \<Rightarrow> ''linear'' | OtherFilter n \<Rightarrow> ''filter'' @ show_nat n),
      FilterModeFromString = (\<lambda>s. if s = ''filter0'' then OtherFilter 0 else LINEAR),
      WrapModeToString =
        (\<lambda>m. case m of REPEAT \<Rightarrow> ''repeat'' | OtherWrap n \<Rightarrow> ''wrap'' @ show_nat n),
      WrapModeFromString = (\<lambda>s. if s = ''wrap0'' then OtherWrap 0 else REPEAT),
      TextureBitPerPixel =
        (\<lambda>f. case f of UNKNOW \<Rightarrow> 0 | SRGB \<Rightarrow> 24 | SRGB8 \<Rightarrow> 24 | RGB8 \<Rightarrow> 24 | _ \<Rightarrow> 32),
      TextureTypeToUnit =
        (\<lambda>ty. case ty of TEXTURE_2D \<Rightarrow> 3553 | TEXTURE_2D_ARRAY \<Rightarrow> 35866 | OtherType n \<Rightarrow> 0),
      LoadImage =
        (\<lambda>path w h. if path = ''checker.png'' then (True, 2, 2, 4) else (False, w, h, 0)),
      Color_Black = Color 0 0 0 1,
      CreateEmpty_mipMap_default = False\<rparr>"

text \<open>The state at program start: no objects, an empty pool, nothing registered.\<close>

definition World_init :: World where
  "World_init =
     \<lparr>heap = Map.empty, next_ptr = 0, m_TexturePool = [], bm_buffers = {},
      device = \<lparr>bm_memory = 0, gl_counter = 0, gl_live = {}\<rparr>\<rparr>"

text \<open>
  States the pool reaches from \<open>World_init\<close>: a 4 by 4 \<open>RGBA8\<close> texture acquired, and
  released again; and a request with format \<open>UNKNOW\<close> acquired, and released again.
\<close>

definition Texture_4x4 :: Texture where
  "Texture_4x4 =
     \<lparr>m_Name = ''4*4*0*rgba8*2d'', m_ID = 1, m_Width = 4, m_Height = 4, m_Depth = 0,
      m_Format = RGBA8, m_Type = TEXTURE_2D, m_TypeUint = 3553, m_FilterMode = LINEAR,
      m_WrapMode = REPEAT, m_BorderColor = Color 0 0 0 0, m_Mipmap = False, m_Dirty = False,
      m_FilePath = []\<rparr>"

definition World_acquired :: World where
  "World_acquired =
     \<lparr>heap = [0 \<mapsto> Texture_4x4], next_ptr = 1, m_TexturePool = [], bm_buffers = {0},
      device = \<lparr>bm_memory = 64, gl_counter = 1, gl_live = {1}\<rparr>\<rparr>"

definition World_released :: World where
  "World_released = World_acquired\<lparr>m_TexturePool := [(''4*4*0*rgba8*2d'', [0])]\<rparr>"

definition World_unknow :: World where
  "World_unknow =
     \<lparr>heap = [0 \<mapsto> Texture_new Engine ''4*4*0*unknow*2d''], next_ptr = 1, m_TexturePool = [],
      bm_buffers = {0}, device = \<lparr>bm_memory = 0, gl_counter = 0, gl_live = {}\<rparr>\<rparr>"

definition World_unknow_released :: World where
  "World_unknow_released = World_unknow\<lparr>m_TexturePool := [(''0*0*0*unknow*2d'', [0])]\<rparr>"

text \<open>
  From the released state, an 8 by 8 texture acquired and kept: one texture free on its
  stack, one checked out.
\<close>

definition Texture_8x8 :: Texture where
  "Texture_8x8 =
     \<lparr>m_Name = ''8*8*0*rgba8*2d'', m_ID = 2, m_Width = 8, m_Height = 8, m_Depth = 0,
      m_Format = RGBA8, m_Type = TEXTURE_2D, m_TypeUint = 3553, m_FilterMode = LINEAR,
      m_WrapMode = REPEAT, m_BorderColor = Color 0 0 0 0, m_Mipmap = False, m_Dirty = False,
      m_FilePath = []\<rparr>"

definition World_mixed :: World where
  "World_mixed =
     \<lparr>heap = [0 \<mapsto> Texture_4x4, 1 \<mapsto> Texture_8x8], next_ptr = 2,
      m_TexturePool = [(''4*4*0*rgba8*2d'', [0])], bm_buffers = {0, 1},
      device = \<lparr>bm_memory = 320, gl_counter = 2, gl_live = {1, 2}\<rparr>\<rparr>"

text \<open>
  A texture whose buffer was created as a two-layer array with mipmaps and then deleted;
  and two documents, one with and one without a height.
\<close>

definition Texture_dropped :: Texture where
  "Texture_dropped =
     fst (DeleteBuffer Engine
       (CreateEmpty Engine 4 4 2 RGBA8 TEXTURE_2D_ARRAY True
          (Texture_new Engine ''layers'', device World_init)))"

definition Document_sized :: "token list" where
  "Document_sized =
     [T_StartObject, T_Key ''name'', T_String ''shadow'', T_Key ''format'', T_String ''rgba8'',
      T_Key ''width'', T_Int 4, T_Key ''height'', T_Int 4, T_EndObject]"

definition Document_unsized :: "token list" where
  "Document_unsized =
     [T_StartObject, T_Key ''name'', T_String ''shadow'', T_Key ''format'', T_String ''rgba8'',
      T_Key ''width'', T_Int 4, T_EndObject]"

text \<open>
  The released state after \<^verbatim>\<open>ReleaseTempories\<close>: the texture on the stack has lost its
  buffer and its shape; and that texture acquired and released once more.
\<close>

definition Texture_stale :: Texture where
  "Texture_stale =
     Texture_4x4\<lparr>m_Dirty := True, m_ID := 0, m_Width := 0, m_Height := 0, m_Format := UNKNOW,
       m_FilePath := []\<rparr>"

definition World_stale :: World where
  "World_stale =
     World_released\<lparr>heap := [0 \<mapsto> Texture_stale],
       device := \<lparr>bm_memory = 0, gl_counter = 1, gl_live = {}\<rparr>\<rparr>"

definition World_stale_released :: World where
  "World_stale_released =
     World_stale\<lparr>m_TexturePool := [(''4*4*0*rgba8*2d'', []), (''0*0*0*unknow*2d'', [0])]\<rparr>"


section \<open>Properties\<close>

declare show_nat.simps [simp del]

subsection \<open>Texture methods, step by step\<close>

lemma DeleteBuffer_unallocated:
  "m_ID t = 0 \<Longrightarrow> DeleteBuffer ex (t, d) = (t\<lparr>m_Dirty := True\<rparr>, d)"
  by (simp add: DeleteBuffer_def)

lemma DeleteBuffer_allocated:
  "m_ID t \<noteq> 0 \<Longrightarrow>
   DeleteBuffer ex (t, d) =
     (t\<lparr>m_Dirty := True, m_ID := 0, m_Width := 0, m_Height := 0, m_Format := UNKNOW,
        m_FilePath := []\<rparr>,
      d\<lparr>bm_memory := bm_memory d - uint (footprint ex t), gl_live := gl_live d - {m_ID t}\<rparr>)"
  by (simp add: DeleteBuffer_def Let_def DecreaseMemory_def BufferManager_DecreaseMemory_def
      glDeleteTextures_def footprint_def)

lemma CreateEmpty_declines:
  "CreateEmpty ex width height depth UNKNOW type mipMap td = DeleteBuffer ex td"
  by (simp add: CreateEmpty_def)

lemma CreateEmpty_allocates:
  "format \<noteq> UNKNOW \<Longrightarrow>
   CreateEmpty ex width height depth format type mipMap td =
     (let td1 = DeleteBuffer ex td;
          t2 = (fst td1)\<lparr>m_Mipmap := mipMap, m_Format := format, m_Dirty := False,
                  m_Width := width, m_Height := height, m_Depth := depth, m_Type := type,
                  m_TypeUint := TextureTypeToUnit ex type, m_ID := Suc (gl_counter (snd td1))\<rparr>
      in (t2, (snd td1)\<lparr>gl_counter := Suc (gl_counter (snd td1)),
                 gl_live := insert (Suc (gl_counter (snd td1))) (gl_live (snd td1)),
                 bm_memory := bm_memory (snd td1) +
                   uint ((width * height * (depth + 1) * TextureBitPerPixel ex format) div 8)\<rparr>))"
  by (simp add: CreateEmpty_def Let_def glGenTextures_def IncreaseMemory_def
      BufferManager_IncreaseMemory_def footprint_def)

subsection \<open>Pool operations, step by step\<close>

lemma map_of_set_stack:
  "map_of (set_stack key s pool) k =
     (if k = key then (case map_of pool key of None \<Rightarrow> None | Some old \<Rightarrow> Some s)
      else map_of pool k)"
  by (induction pool) (auto simp: set_stack_def)

lemma GetTempory_reuse:
  "map_of (m_TexturePool w) (GetKeyFromParams ex width height depth format type) = Some (p # rest) \<Longrightarrow>
   GetTempory ex width height depth format type w =
     (p, w\<lparr>m_TexturePool :=
              set_stack (GetKeyFromParams ex width height depth format type) rest (m_TexturePool w)\<rparr>)"
  by (simp add: GetTempory_def)

lemma GetTempory_create:
  "map_of (m_TexturePool w) (GetKeyFromParams ex width height depth format type) = None \<or>
   map_of (m_TexturePool w) (GetKeyFromParams ex width height depth format type) = Some [] \<Longrightarrow>
   GetTempory ex width height depth format type w =
     (let td = CreateEmpty ex width height depth format type (CreateEmpty_mipMap_default ex)
                 (Texture_new ex (GetKeyFromParams ex width height depth format type), device w)
      in (next_ptr w,
          w\<lparr>heap := (heap w)(next_ptr w \<mapsto> fst td), next_ptr := Suc (next_ptr w),
            bm_buffers := insert (next_ptr w) (bm_buffers w), device := snd td\<rparr>))"
  by (auto simp: GetTempory_def Texture_Create_def BufferManager_Add_def invoke_def Let_def)

lemma CollectTempory_Some:
  "heap w p = Some t \<Longrightarrow>
   CollectTempory ex p w =
     Some (w\<lparr>m_TexturePool :=
              (let key = GetKeyFromPtr ex t;
                   pool = (if map_of (m_TexturePool w) key = None
                           then m_TexturePool w @ [(key, [])] else m_TexturePool w)
               in set_stack key (p # (case map_of pool key of Some s \<Rightarrow> s | None \<Rightarrow> [])) pool)\<rparr>)"
  by (simp add: CollectTempory_def Let_def)

lemma CollectTempory_pool:
  assumes "heap w p = Some t" and "CollectTempory ex p w = Some w'"
  shows "map_of (m_TexturePool w') k =
           (if k = GetKeyFromPtr ex t
            then Some (p # (case map_of (m_TexturePool w) k of None \<Rightarrow> [] | Some s \<Rightarrow> s))
            else map_of (m_TexturePool w) k)"
proof (cases "map_of (m_TexturePool w) (GetKeyFromPtr ex t)")
  case None
  with assms show ?thesis
    by (auto simp: CollectTempory_Some Let_def map_of_set_stack map_add_def split: option.splits)
next
  case (Some s)
  with assms show ?thesis
    by (auto simp: CollectTempory_Some Let_def map_of_set_stack)
qed


lemma GetKeyFromPtr_CreateEmpty:
  "format \<noteq> UNKNOW \<Longrightarrow>
   GetKeyFromPtr ex (fst (CreateEmpty ex width height depth format type mipMap td)) =
     GetKeyFromParams ex width height depth format type"
  by (simp add: CreateEmpty_allocates Let_def GetKeyFromPtr_def)

lemma CreateEmpty_new_fields:
  "format \<noteq> UNKNOW \<Longrightarrow>
   (let r = CreateEmpty ex width height depth format type mipMap (Texture_new ex name, d)
    in m_ID (fst r) = Suc (gl_counter d) \<and> m_Width (fst r) = width \<and> m_Height (fst r) = height \<and>
       m_Depth (fst r) = depth \<and> m_Format (fst r) = format \<and> m_Type (fst r) = type \<and>
       \<not> m_Dirty (fst r) \<and>
       bm_memory (snd r) = bm_memory d + uint (footprint ex (fst r)) \<and>
       gl_live (snd r) = insert (Suc (gl_counter d)) (gl_live d))"
  by (simp add: CreateEmpty_allocates Let_def DeleteBuffer_unallocated Texture_new_def footprint_def)

lemma GetTempory_returns_keyed:
  assumes "format \<noteq> UNKNOW"
    and "\<forall>p rest. map_of (m_TexturePool w) (GetKeyFromParams ex width height depth format type) =
             Some (p # rest) \<longrightarrow>
           (\<exists>t. heap w p = Some t \<and>
                GetKeyFromPtr ex t = GetKeyFromParams ex width height depth format type)"
  shows "\<exists>t. heap (snd (GetTempory ex width height depth format type w))
                (fst (GetTempory ex width height depth format type w)) = Some t \<and>
              GetKeyFromPtr ex t = GetKeyFromParams ex width height depth format type"
proof (cases "map_of (m_TexturePool w) (GetKeyFromParams ex width height depth format type)")
  case None
  then show ?thesis
    using assms(1) by (simp add: GetTempory_create Let_def GetKeyFromPtr_CreateEmpty)
next
  case (Some stack)
  show ?thesis
  proof (cases stack)
    case Nil
    with Some show ?thesis
      using assms(1) by (simp add: GetTempory_create Let_def GetKeyFromPtr_CreateEmpty)
  next
    case (Cons p rest)
    with Some assms(2) show ?thesis
      by (simp add: GetTempory_reuse)
  qed
qed

subsection \<open>The concrete states\<close>

lemma Engine_fields:
  "TextureFormatToString Engine UNKNOW = ''unknow''"
  "TextureFormatToString Engine RGBA8 = ''rgba8''"
  "TextureFormatFromString Engine ''unknow'' = UNKNOW"
  "TextureFormatFromString Engine ''rgba8'' = RGBA8"
  "TextureTypeToString Engine TEXTURE_2D = ''2d''"
  "TextureTypeToString Engine TEXTURE_2D_ARRAY = ''2d_array''"
  "TextureTypeFromString Engine ''2d'' = TEXTURE_2D"
  "TextureTypeFromString Engine ''2d_array'' = TEXTURE_2D_ARRAY"
  "FilterModeToString Engine LINEAR = ''linear''"
  "FilterModeFromString Engine ''linear'' = LINEAR"
  "WrapModeToString Engine REPEAT = ''repeat''"
  "WrapModeFromString Engine ''repeat'' = REPEAT"
  "TextureBitPerPixel Engine UNKNOW = 0"
  "TextureBitPerPixel Engine RGBA8 = 32"
  "TextureTypeToUnit Engine TEXTURE_2D = 3553"
  "TextureTypeToUnit Engine TEXTURE_2D_ARRAY = 35866"
  "LoadImage Engine ''checker.png'' w h = (True, 2, 2, 4)"
  "LoadImage Engine ''missing.png'' w h = (False, w, h, 0)"
  "Color_Black Engine = Color 0 0 0 1"
  "CreateEmpty_mipMap_default Engine = False"
  by (simp_all add: Engine_def)

lemma show_nat_digit: "n < 10 \<Longrightarrow> show_nat n = [digit_char n]"
  by (simp add: show_nat.simps)

lemma key_4x4: "GetKeyFromParams Engine 4 4 0 RGBA8 TEXTURE_2D = ''4*4*0*rgba8*2d''"
  by (simp add: GetKeyFromParams_def show_int_def show_nat_digit digit_char_def Engine_fields)

lemma key_Texture_4x4: "GetKeyFromPtr Engine Texture_4x4 = ''4*4*0*rgba8*2d''"
  by (simp add: GetKeyFromPtr_def Texture_4x4_def key_4x4)

lemma Texture_4x4_reached:
  "CreateEmpty Engine 4 4 0 RGBA8 TEXTURE_2D False
     (Texture_new Engine ''4*4*0*rgba8*2d'', device World_init) =
   (Texture_4x4, device World_acquired)"
  by (simp add: CreateEmpty_allocates DeleteBuffer_unallocated Texture_new_def Let_def
      Engine_fields World_init_def World_acquired_def Texture_4x4_def)

lemma World_acquired_reached:
  "GetTempory Engine 4 4 0 RGBA8 TEXTURE_2D World_init = (0, World_acquired)"
  by (simp add: GetTempory_create key_4x4 World_init_def World_acquired_def Texture_4x4_def
      CreateEmpty_allocates DeleteBuffer_unallocated Texture_new_def Let_def Engine_fields)

lemma World_released_reached:
  "CollectTempory Engine 0 World_acquired = Some World_released"
  by (simp add: CollectTempory_def key_Texture_4x4 World_acquired_def World_released_def
      set_stack_def)

lemma World_released_reuse:
  "GetTempory Engine 4 4 0 RGBA8 TEXTURE_2D World_released =
     (0, World_acquired\<lparr>m_TexturePool := [(''4*4*0*rgba8*2d'', [])]\<rparr>)"
  by (simp add: GetTempory_def key_4x4 World_acquired_def World_released_def set_stack_def)

lemma key_unknow: "GetKeyFromParams Engine 4 4 0 UNKNOW TEXTURE_2D = ''4*4*0*unknow*2d''"
  by (simp add: GetKeyFromParams_def show_int_def show_nat_digit digit_char_def Engine_fields)

lemma key_Texture_new: "GetKeyFromPtr Engine (Texture_new Engine name) = ''0*0*0*unknow*2d''"
  by (simp add: GetKeyFromPtr_def GetKeyFromParams_def Texture_new_def show_int_def
      show_nat_digit digit_char_def Engine_fields)

lemma World_unknow_reached:
  "GetTempory Engine 4 4 0 UNKNOW TEXTURE_2D World_init = (0, World_unknow)"
  by (simp add: GetTempory_create key_unknow World_init_def World_unknow_def
      CreateEmpty_declines DeleteBuffer_unallocated Texture_new_def Let_def)

lemma World_unknow_released_reached:
  "CollectTempory Engine 0 World_unknow = Some World_unknow_released"
  by (simp add: CollectTempory_def key_Texture_new World_unknow_def World_unknow_released_def
      set_stack_def)

lemma World_stale_reached: "ReleaseTempories Engine World_released = World_stale"
  by (simp add: ReleaseTempories_def World_released_def World_acquired_def World_stale_def
      Texture_stale_def BufferManager_Release_def invoke_def Let_def DeleteBuffer_allocated
      Texture_4x4_def footprint_def Engine_fields)

lemma key_Texture_stale: "GetKeyFromPtr Engine Texture_stale = ''0*0*0*unknow*2d''"
  by (simp add: GetKeyFromPtr_def GetKeyFromParams_def Texture_stale_def Texture_4x4_def
      show_int_def show_nat_digit digit_char_def Engine_fields)

lemma World_stale_reuse:
  "GetTempory Engine 4 4 0 RGBA8 TEXTURE_2D World_stale =
     (0, World_stale\<lparr>m_TexturePool := [(''4*4*0*rgba8*2d'', [])]\<rparr>)"
  by (simp add: GetTempory_def key_4x4 World_stale_def World_released_def World_acquired_def
      set_stack_def)

lemma World_stale_released_reached:
  "CollectTempory Engine 0 (World_stale\<lparr>m_TexturePool := [(''4*4*0*rgba8*2d'', [])]\<rparr>) =
     Some World_stale_released"
  by (simp add: CollectTempory_def key_Texture_stale World_stale_def World_stale_released_def
      World_released_def World_acquired_def set_stack_def)

subsection \<open>The pool invariant\<close>

text \<open>
  The invariant holds at program start and is kept by \<^verbatim>\<open>GetTempory\<close> and by
  \<^verbatim>\<open>CollectTempory\<close> of a live texture; it gives the condition on the top of a
  stack under which acquiring, releasing and acquiring again returns the same texture.
\<close>

lemma pool_keyedD:
  "pool_keyed ex w \<Longrightarrow> (k, s) \<in> set (m_TexturePool w) \<Longrightarrow> p \<in> set s \<Longrightarrow>
   p < next_ptr w \<and> (\<exists>t. heap w p = Some t \<and> GetKeyFromPtr ex t = k)"
  by (auto simp: pool_keyed_def)

lemma set_set_stack:
  "(k, st) \<in> set (set_stack key s pool) \<Longrightarrow>
   (k = key \<and> st = s) \<or> (k \<noteq> key \<and> (k, st) \<in> set pool)"
  by (auto simp: set_stack_def split: if_splits)

lemma pool_keyed_init: "pool_keyed ex World_init"
  by (simp add: pool_keyed_def World_init_def)

lemma pool_keyed_top:
  assumes "pool_keyed ex w"
  shows "\<forall>p rest. map_of (m_TexturePool w) key = Some (p # rest) \<longrightarrow>
           (\<exists>t. heap w p = Some t \<and> GetKeyFromPtr ex t = key)"
proof (intro allI impI)
  fix p rest
  assume "map_of (m_TexturePool w) key = Some (p # rest)"
  then have "(key, p # rest) \<in> set (m_TexturePool w)"
    by (rule map_of_SomeD)
  from pool_keyedD [OF assms this, of p]
  show "\<exists>t. heap w p = Some t \<and> GetKeyFromPtr ex t = key"
    by simp
qed

lemma pool_keyed_GetTempory:
  assumes "pool_keyed ex w"
  shows "pool_keyed ex (snd (GetTempory ex width height depth format type w))"
proof (cases "\<exists>p rest. map_of (m_TexturePool w)
    (GetKeyFromParams ex width height depth format type) = Some (p # rest)")
  case True
  then obtain p rest where top: "map_of (m_TexturePool w)
      (GetKeyFromParams ex width height depth format type) = Some (p # rest)"
    by blast
  then have entry: "(GetKeyFromParams ex width height depth format type, p # rest)
      \<in> set (m_TexturePool w)"
    by (rule map_of_SomeD)
  show ?thesis
    unfolding pool_keyed_def
  proof (intro ballI, clarify)
    fix k s q
    assume "(k, s) \<in> set (m_TexturePool (snd (GetTempory ex width height depth format type w)))"
      and q: "q \<in> set s"
    then have "(k, s) \<in> set (set_stack (GetKeyFromParams ex width height depth format type)
        rest (m_TexturePool w))"
      by (simp add: GetTempory_reuse [OF top])
    from set_set_stack [OF this]
    have "\<exists>s'. (k, s') \<in> set (m_TexturePool w) \<and> q \<in> set s'"
      using entry q by auto
    then obtain s' where "(k, s') \<in> set (m_TexturePool w)" and "q \<in> set s'"
      by blast
    from pool_keyedD [OF assms this]
    show "q < next_ptr (snd (GetTempory ex width height depth format type w)) \<and>
        (\<exists>t. heap (snd (GetTempory ex width height depth format type w)) q = Some t \<and>
             GetKeyFromPtr ex t = k)"
      by (simp add: GetTempory_reuse [OF top])
  qed
next
  case False
  then have miss: "map_of (m_TexturePool w)
        (GetKeyFromParams ex width height depth format type) = None \<or>
      map_of (m_TexturePool w) (GetKeyFromParams ex width height depth format type) = Some []"
  proof (cases "map_of (m_TexturePool w) (GetKeyFromParams ex width height depth format type)")
    case None
    then show ?thesis by simp
  next
    case (Some stack)
    with False show ?thesis by (cases stack) simp_all
  qed
  show ?thesis
    unfolding pool_keyed_def
  proof (intro ballI, clarify)
    fix k s q
    assume "(k, s) \<in> set (m_TexturePool (snd (GetTempory ex width height depth format type w)))"
      and q: "q \<in> set s"
    then have "(k, s) \<in> set (m_TexturePool w)"
      by (simp add: GetTempory_create [OF miss] Let_def)
    from pool_keyedD [OF assms this q]
    show "q < next_ptr (snd (GetTempory ex width height depth format type w)) \<and>
        (\<exists>t. heap (snd (GetTempory ex width height depth format type w)) q = Some t \<and>
             GetKeyFromPtr ex t = k)"
      by (auto simp: GetTempory_create [OF miss] Let_def)
  qed
qed

lemma pool_keyed_CollectTempory:
  assumes inv: "pool_keyed ex w" and live: "heap w p = Some t" and old: "p < next_ptr w"
    and res: "CollectTempory ex p w = Some w'"
  shows "pool_keyed ex w'"
  unfolding pool_keyed_def
proof (intro ballI, clarify)
  fix k s q
  assume entry: "(k, s) \<in> set (m_TexturePool w')" and q: "q \<in> set s"
  have frame: "heap w' = heap w" "next_ptr w' = next_ptr w"
    using live res by (auto simp: CollectTempory_Some)
  let ?key = "GetKeyFromPtr ex t"
  let ?pool = "if map_of (m_TexturePool w) ?key = None
               then m_TexturePool w @ [(?key, [])] else m_TexturePool w"
  let ?stack = "case map_of ?pool ?key of Some s \<Rightarrow> s | None \<Rightarrow> []"
  have "m_TexturePool w' = set_stack ?key (p # ?stack) ?pool"
    using live res by (auto simp: CollectTempory_Some Let_def)
  with entry have "(k, s) \<in> set (set_stack ?key (p # ?stack) ?pool)"
    by simp
  from set_set_stack [OF this]
  consider "k = ?key" and "s = p # ?stack" | "k \<noteq> ?key" and "(k, s) \<in> set ?pool"
    by blast
  then have "q < next_ptr w \<and> (\<exists>t. heap w q = Some t \<and> GetKeyFromPtr ex t = k)"
  proof cases
    case 1
    show ?thesis
    proof (cases "q = p")
      case True
      with 1 live old show ?thesis by simp
    next
      case False
      with 1 q have qs: "q \<in> set ?stack"
        by simp
      then obtain st where st: "map_of (m_TexturePool w) ?key = Some st" and "q \<in> set st"
        by (cases "map_of (m_TexturePool w) ?key") (auto simp: map_add_def)
      then have "(?key, st) \<in> set (m_TexturePool w)"
        by (simp add: map_of_SomeD)
      from pool_keyedD [OF inv this \<open>q \<in> set st\<close>] 1 show ?thesis
        by simp
    qed
  next
    case 2
    then have "(k, s) \<in> set (m_TexturePool w)"
      by (auto split: if_splits)
    from pool_keyedD [OF inv this q] show ?thesis .
  qed
  then show "q < next_ptr w' \<and> (\<exists>t. heap w' q = Some t \<and> GetKeyFromPtr ex t = k)"
    by (simp add: frame)
qed

subsection \<open>C10: CreateEmpty with format UNKNOW\<close>

text \<open>
  C10. \<^verbatim>\<open>CreateEmpty\<close> with format \<open>UNKNOW\<close> is not rejected up front: it first destroys
  an existing buffer (the byte total drops by the footprint, the id becomes 0, width and
  height become 0, the OpenGL name is retired), marks the texture dirty, and then
  allocates nothing: no texture name is generated and the texture is left unallocated.
\<close>

theorem CreateEmpty_UNKNOW:
  "(let r = CreateEmpty ex width height depth UNKNOW type mipMap (t, d)
    in m_ID (fst r) = 0 \<and> m_Dirty (fst r) \<and> gl_counter (snd r) = gl_counter d \<and>
       (m_ID t \<noteq> 0 \<longrightarrow>
          m_Width (fst r) = 0 \<and> m_Height (fst r) = 0 \<and> m_Format (fst r) = UNKNOW \<and>
          bm_memory (snd r) = bm_memory d - uint (footprint ex t) \<and>
          gl_live (snd r) = gl_live d - {m_ID t}) \<and>
       (m_ID t = 0 \<longrightarrow> r = (t\<lparr>m_Dirty := True\<rparr>, d)))"
proof (cases "m_ID t = 0")
  case True
  then show ?thesis
    by (simp add: CreateEmpty_declines DeleteBuffer_unallocated)
next
  case False
  then show ?thesis
    by (simp add: CreateEmpty_declines DeleteBuffer_allocated)
qed


theorem CreateEmpty_UNKNOW_witness:
  "(let td = CreateEmpty Engine 4 4 0 RGBA8 TEXTURE_2D False
               (Texture_new Engine ''a'', device World_init);
        r = CreateEmpty Engine 8 8 0 UNKNOW TEXTURE_2D False td
    in m_ID (fst td) = 1 \<and> bm_memory (snd td) = 64 \<and> gl_live (snd td) = {1} \<and>
       m_ID (fst r) = 0 \<and> m_Dirty (fst r) \<and> m_Width (fst r) = 0 \<and> m_Height (fst r) = 0 \<and>
       bm_memory (snd r) = 0 \<and> gl_counter (snd r) = 1 \<and> gl_live (snd r) = {})"
  using CreateEmpty_UNKNOW [of Engine 8 8 0 TEXTURE_2D False
      "fst (CreateEmpty Engine 4 4 0 RGBA8 TEXTURE_2D False
              (Texture_new Engine ''a'', device World_init))"
      "snd (CreateEmpty Engine 4 4 0 RGBA8 TEXTURE_2D False
              (Texture_new Engine ''a'', device World_init))"]
  by (simp add: Let_def CreateEmpty_allocates DeleteBuffer_unallocated Texture_new_def
      World_init_def Engine_def footprint_def)

subsection \<open>C9: lazy creation of the buffer\<close>

lemma UpdateBuffer_skip:
  "m_ID t > 0 \<or> \<not> m_Dirty t \<Longrightarrow> UpdateBuffer ex (t, d) = (t, d)"
  by (simp add: UpdateBuffer_def)

lemma UpdateBuffer_parameters:
  assumes "m_ID t = 0" and "m_Dirty t" and "m_FilePath t = []"
  shows "UpdateBuffer ex (t, d) =
           (if m_Format t = UNKNOW then (t, d)
            else (t\<lparr>m_Dirty := False, m_TypeUint := TextureTypeToUnit ex (m_Type t),
                     m_ID := Suc (gl_counter d)\<rparr>,
                  d\<lparr>gl_counter := Suc (gl_counter d),
                     gl_live := insert (Suc (gl_counter d)) (gl_live d),
                     bm_memory := bm_memory d + uint (footprint ex t)\<rparr>))"
  using assms
  by (simp add: UpdateBuffer_def Let_def CreateEmpty_declines CreateEmpty_allocates
      DeleteBuffer_unallocated footprint_def)

lemma UpdateBuffer_image:
  assumes "m_ID t = 0" and "m_Dirty t" and "m_FilePath t \<noteq> []"
  shows "(let img = LoadImage ex (m_FilePath t) (m_Width t) (m_Height t);
              r = UpdateBuffer ex (t, d)
          in if fst img \<and> (snd (snd (snd img)) = 3 \<or> snd (snd (snd img)) = 4)
             then m_ID (fst r) = Suc (gl_counter d) \<and> \<not> m_Dirty (fst r) \<and>
                  m_FilePath (fst r) = m_FilePath t \<and> m_Mipmap (fst r) = m_Mipmap t \<and>
                  m_Width (fst r) = fst (snd img) \<and> m_Height (fst r) = fst (snd (snd img)) \<and>
                  m_Depth (fst r) = 0 \<and> m_Format (fst r) \<noteq> UNKNOW \<and>
                  m_Format (fst r) =
                    (if m_Format t = SRGB \<or> m_Format t = SRGB8 \<or>
                        m_Format t = SRGB8_ALPHA8 \<or> m_Format t = SRGB_ALPHA
                     then (if snd (snd (snd img)) = 3 then SRGB8 else SRGB8_ALPHA8)
                     else (if snd (snd (snd img)) = 3 then RGB8 else RGBA8)) \<and>
                  gl_live (snd r) = insert (Suc (gl_counter d)) (gl_live d) \<and>
                  bm_memory (snd r) = bm_memory d + uint (footprint ex (fst r))
             else m_ID (fst r) = 0 \<and> m_Dirty (fst r) \<and> snd r = d)"
  using assms
  by (auto simp: UpdateBuffer_def Let_def CreateFromImage_def DeleteBuffer_unallocated
      glGenTextures_def IncreaseMemory_def BufferManager_IncreaseMemory_def IsSRGB_def)

text \<open>
  C9, as amended. \<^verbatim>\<open>UpdateBuffer\<close> changes nothing when the buffer id is not zero or
  the texture is not dirty. Otherwise it recreates the buffer: without a stored file
  path and with a stored format other than \<open>UNKNOW\<close> it allocates from the stored
  parameters and leaves the dirty flag clear; with the stored format \<open>UNKNOW\<close> it
  allocates nothing and the texture stays dirty; with a stored file path it allocates
  and clears the dirty flag when the image loads with 3 or 4 channels, and otherwise
  leaves the texture unallocated and dirty.
\<close>

theorem UpdateBuffer_lazy:
  "(m_ID t > 0 \<or> \<not> m_Dirty t \<longrightarrow> UpdateBuffer ex (t, d) = (t, d)) \<and>
   (m_ID t = 0 \<and> m_Dirty t \<and> m_FilePath t = [] \<and> m_Format t \<noteq> UNKNOW \<longrightarrow>
      UpdateBuffer ex (t, d) =
        (t\<lparr>m_Dirty := False, m_TypeUint := TextureTypeToUnit ex (m_Type t),
            m_ID := Suc (gl_counter d)\<rparr>,
         d\<lparr>gl_counter := Suc (gl_counter d),
            gl_live := insert (Suc (gl_counter d)) (gl_live d),
            bm_memory := bm_memory d + uint (footprint ex t)\<rparr>)) \<and>
   (m_ID t = 0 \<and> m_Dirty t \<and> m_FilePath t = [] \<and> m_Format t = UNKNOW \<longrightarrow>
      UpdateBuffer ex (t, d) = (t, d)) \<and>
   (m_ID t = 0 \<and> m_Dirty t \<and> m_FilePath t \<noteq> [] \<longrightarrow>
      (let img = LoadImage ex (m_FilePath t) (m_Width t) (m_Height t);
           r = UpdateBuffer ex (t, d)
       in if fst img \<and> (snd (snd (snd img)) = 3 \<or> snd (snd (snd img)) = 4)
          then m_ID (fst r) = Suc (gl_counter d) \<and> \<not> m_Dirty (fst r) \<and>
               m_FilePath (fst r) = m_FilePath t \<and> m_Mipmap (fst r) = m_Mipmap t \<and>
               m_Width (fst r) = fst (snd img) \<and> m_Height (fst r) = fst (snd (snd img)) \<and>
               m_Depth (fst r) = 0 \<and> m_Format (fst r) \<noteq> UNKNOW \<and>
               m_Format (fst r) =
                 (if m_Format t = SRGB \<or> m_Format t = SRGB8 \<or>
                     m_Format t = SRGB8_ALPHA8 \<or> m_Format t = SRGB_ALPHA
                  then (if snd (snd (snd img)) = 3 then SRGB8 else SRGB8_ALPHA8)
                  else (if snd (snd (snd img)) = 3 then RGB8 else RGBA8)) \<and>
               gl_live (snd r) = insert (Suc (gl_counter d)) (gl_live d) \<and>
               bm_memory (snd r) = bm_memory d + uint (footprint ex (fst r))
          else m_ID (fst r) = 0 \<and> m_Dirty (fst r) \<and> snd r = d))"
  using UpdateBuffer_skip [of t ex d] UpdateBuffer_parameters [of t ex d]
    UpdateBuffer_image [of t ex d]
  by presburger


theorem UpdateBuffer_lazy_witness:
  "m_ID Texture_4x4 > 0 \<and>
   UpdateBuffer Engine (Texture_4x4, device World_acquired) = (Texture_4x4, device World_acquired) \<and>
   m_ID (fst (UpdateBuffer Engine
     ((Texture_new Engine ''a'')\<lparr>m_Width := 4, m_Height := 4, m_Format := RGBA8\<rparr>,
      device World_init))) = 1 \<and>
   \<not> m_Dirty (fst (UpdateBuffer Engine
     ((Texture_new Engine ''a'')\<lparr>m_Width := 4, m_Height := 4, m_Format := RGBA8\<rparr>,
      device World_init))) \<and>
   bm_memory (snd (UpdateBuffer Engine
     ((Texture_new Engine ''a'')\<lparr>m_Width := 4, m_Height := 4, m_Format := RGBA8\<rparr>,
      device World_init))) = 64 \<and>
   UpdateBuffer Engine (Texture_new Engine ''a'', device World_init) =
     (Texture_new Engine ''a'', device World_init) \<and>
   m_ID (fst (UpdateBuffer Engine
     ((Texture_new Engine ''a'')\<lparr>m_FilePath := ''checker.png''\<rparr>, device World_init))) = 1 \<and>
   m_Width (fst (UpdateBuffer Engine
     ((Texture_new Engine ''a'')\<lparr>m_FilePath := ''checker.png''\<rparr>, device World_init))) = 2 \<and>
   m_Dirty (fst (UpdateBuffer Engine
     ((Texture_new Engine ''a'')\<lparr>m_FilePath := ''missing.png''\<rparr>, device World_init)))"
  using UpdateBuffer_lazy [of Texture_4x4 Engine "device World_acquired"]
    UpdateBuffer_lazy [of "(Texture_new Engine ''a'')\<lparr>m_Width := 4, m_Height := 4, m_Format := RGBA8\<rparr>"
      Engine "device World_init"]
    UpdateBuffer_lazy [of "Texture_new Engine ''a''" Engine "device World_init"]
    UpdateBuffer_lazy [of "(Texture_new Engine ''a'')\<lparr>m_FilePath := ''checker.png''\<rparr>"
      Engine "device World_init"]
    UpdateBuffer_lazy [of "(Texture_new Engine ''a'')\<lparr>m_FilePath := ''missing.png''\<rparr>"
      Engine "device World_init"]
  by (simp add: Texture_4x4_def Texture_new_def World_init_def Engine_fields footprint_def Let_def)

theorem UpdateBuffer_lazy_counterexample:
  "CreateEmpty Engine 4 4 0 RGBA8 TEXTURE_2D False
     (Texture_new Engine ''4*4*0*rgba8*2d'', device World_init) =
     (Texture_4x4, device World_acquired) \<and>
   m_ID (fst (DeleteBuffer Engine (Texture_4x4, device World_acquired))) = 0 \<and>
   m_Dirty (fst (DeleteBuffer Engine (Texture_4x4, device World_acquired))) \<and>
   m_FilePath (fst (DeleteBuffer Engine (Texture_4x4, device World_acquired))) = [] \<and>
   m_Dirty (fst (UpdateBuffer Engine (DeleteBuffer Engine (Texture_4x4, device World_acquired)))) \<and>
   m_ID (fst (UpdateBuffer Engine (DeleteBuffer Engine (Texture_4x4, device World_acquired)))) = 0 \<and>
   gl_live (snd (UpdateBuffer Engine (DeleteBuffer Engine (Texture_4x4, device World_acquired)))) = {}"
  by (simp add: Texture_4x4_reached)
     (simp add: DeleteBuffer_allocated Texture_4x4_def World_acquired_def UpdateBuffer_def
       CreateEmpty_declines DeleteBuffer_unallocated Let_def)

subsection \<open>C3: the byte total\<close>

lemma CreateFromImage_memory:
  "(let r = CreateFromImage ex filePath srgb mipMap (t, d)
    in bm_memory (snd r) =
         bm_memory d - (if m_ID t \<noteq> 0 then uint (footprint ex t) else 0)
           + (if m_ID (fst r) \<noteq> 0 then uint (footprint ex (fst r)) else 0))"
  by (cases "m_ID t = 0")
     (simp_all add: CreateFromImage_def Let_def DeleteBuffer_unallocated DeleteBuffer_allocated
       glGenTextures_def IncreaseMemory_def BufferManager_IncreaseMemory_def footprint_def)

lemma CreateEmpty_memory:
  "bm_memory (snd (CreateEmpty ex width height depth format type mipMap (t, d))) =
     bm_memory d - (if m_ID t \<noteq> 0 then uint (footprint ex t) else 0)
       + (if format \<noteq> UNKNOW
          then uint ((width * height * (depth + 1) * TextureBitPerPixel ex format) div 8) else 0)"
  by (cases "m_ID t = 0"; cases "format = UNKNOW")
     (simp_all add: CreateEmpty_declines CreateEmpty_allocates Let_def DeleteBuffer_unallocated
       DeleteBuffer_allocated)

lemma DeleteBuffer_memory:
  "bm_memory (snd (DeleteBuffer ex (t, d))) =
     bm_memory d - (if m_ID t \<noteq> 0
                    then uint ((m_Width t * m_Height t * (m_Depth t + 1) *
                                TextureBitPerPixel ex (m_Format t)) div 8) else 0)"
  by (cases "m_ID t = 0")
     (simp_all add: DeleteBuffer_unallocated DeleteBuffer_allocated footprint_def)

lemma CreateEmpty_then_DeleteBuffer_memory:
  "format \<noteq> UNKNOW \<Longrightarrow>
   bm_memory (snd (DeleteBuffer ex (CreateEmpty ex width height depth format type mipMap (t, d)))) =
     bm_memory (snd (DeleteBuffer ex (t, d)))"
  by (cases "m_ID t = 0")
     (simp_all add: CreateEmpty_allocates Let_def DeleteBuffer_unallocated DeleteBuffer_allocated
       footprint_def)

text \<open>
  C3. The byte total moves only with allocation and deletion. \<^verbatim>\<open>CreateEmpty\<close> and
  \<^verbatim>\<open>CreateFromImage\<close> first delete an existing buffer, then add
  width * height * (depth + 1) * bitsPerPixel / 8 when they allocate, and add nothing
  when they do not; \<^verbatim>\<open>DeleteBuffer\<close> subtracts the same expression over the fields of
  an allocated texture, and nothing from an unallocated one, so a deletion takes back
  what the allocation added. The reuse path of \<^verbatim>\<open>GetTempory\<close> and
  \<^verbatim>\<open>CollectTempory\<close> leave the total unchanged.
\<close>

theorem memory_accounting:
  "bm_memory (snd (CreateEmpty ex width height depth format type mipMap (t, d))) =
     bm_memory d - (if m_ID t \<noteq> 0 then uint (footprint ex t) else 0)
       + (if format \<noteq> UNKNOW
          then uint ((width * height * (depth + 1) * TextureBitPerPixel ex format) div 8) else 0) \<and>
   bm_memory (snd (CreateFromImage ex filePath srgb mipMap (t, d))) =
     bm_memory d - (if m_ID t \<noteq> 0 then uint (footprint ex t) else 0)
       + (if m_ID (fst (CreateFromImage ex filePath srgb mipMap (t, d))) \<noteq> 0
          then uint (footprint ex (fst (CreateFromImage ex filePath srgb mipMap (t, d)))) else 0) \<and>
   bm_memory (snd (DeleteBuffer ex (t, d))) =
     bm_memory d - (if m_ID t \<noteq> 0
                    then uint ((m_Width t * m_Height t * (m_Depth t + 1) *
                                TextureBitPerPixel ex (m_Format t)) div 8) else 0) \<and>
   (format \<noteq> UNKNOW \<longrightarrow>
      bm_memory (snd (DeleteBuffer ex
          (CreateEmpty ex width height depth format type mipMap (t, d)))) =
        bm_memory (snd (DeleteBuffer ex (t, d)))) \<and>
   (\<forall>p rest. map_of (m_TexturePool w) (GetKeyFromParams ex width height depth format type) =
        Some (p # rest) \<longrightarrow>
      bm_memory (device (snd (GetTempory ex width height depth format type w))) =
        bm_memory (device w)) \<and>
   (\<forall>v'. CollectTempory ex ptr v = Some v' \<longrightarrow> bm_memory (device v') = bm_memory (device v)) \<and>
   footprint ex t =
     (m_Width t * m_Height t * (m_Depth t + 1) * TextureBitPerPixel ex (m_Format t)) div 8 \<and>
   (m_ID (fst (CreateEmpty ex width height depth format type mipMap (t, d))) \<noteq> 0) =
     (format \<noteq> UNKNOW) \<and>
   gl_counter (snd (CreateEmpty ex width height depth format type mipMap (t, d))) =
     (if format \<noteq> UNKNOW then Suc (gl_counter d) else gl_counter d) \<and>
   gl_counter (snd (CreateFromImage ex filePath srgb mipMap (t, d))) =
     (if m_ID (fst (CreateFromImage ex filePath srgb mipMap (t, d))) \<noteq> 0
      then Suc (gl_counter d) else gl_counter d) \<and>
   m_ID (fst (DeleteBuffer ex (t, d))) = 0 \<and>
   gl_counter (snd (DeleteBuffer ex (t, d))) = gl_counter d \<and>
   (\<forall>p rest. map_of (m_TexturePool w) (GetKeyFromParams ex width height depth format type) =
        Some (p # rest) \<longrightarrow>
      device (snd (GetTempory ex width height depth format type w)) = device w \<and>
      heap (snd (GetTempory ex width height depth format type w)) = heap w) \<and>
   (\<forall>v'. CollectTempory ex ptr v = Some v' \<longrightarrow> device v' = device v \<and> heap v' = heap v)"
proof -
  have reuse: "bm_memory (device (snd (GetTempory ex width height depth format type w))) =
      bm_memory (device w)"
    if "map_of (m_TexturePool w) (GetKeyFromParams ex width height depth format type) =
      Some (p # rest)" for p rest
    using that by (simp add: GetTempory_reuse)
  have collect: "bm_memory (device v') = bm_memory (device v)"
    if "CollectTempory ex ptr v = Some v'" for v'
    using that by (auto simp: CollectTempory_def Let_def split: option.splits)
  have image: "bm_memory (snd (CreateFromImage ex filePath srgb mipMap (t, d))) =
     bm_memory d - (if m_ID t \<noteq> 0 then uint (footprint ex t) else 0)
       + (if m_ID (fst (CreateFromImage ex filePath srgb mipMap (t, d))) \<noteq> 0
          then uint (footprint ex (fst (CreateFromImage ex filePath srgb mipMap (t, d)))) else 0)"
    using CreateFromImage_memory [of ex filePath srgb mipMap t d] by (simp add: Let_def)
  have old: "bm_memory (snd (CreateEmpty ex width height depth format type mipMap (t, d))) =
       bm_memory d - (if m_ID t \<noteq> 0 then uint (footprint ex t) else 0)
         + (if format \<noteq> UNKNOW
            then uint ((width * height * (depth + 1) * TextureBitPerPixel ex format) div 8) else 0) \<and>
     bm_memory (snd (CreateFromImage ex filePath srgb mipMap (t, d))) =
       bm_memory d - (if m_ID t \<noteq> 0 then uint (footprint ex t) else 0)
         + (if m_ID (fst (CreateFromImage ex filePath srgb mipMap (t, d))) \<noteq> 0
            then uint (footprint ex (fst (CreateFromImage ex filePath srgb mipMap (t, d)))) else 0) \<and>
     bm_memory (snd (DeleteBuffer ex (t, d))) =
       bm_memory d - (if m_ID t \<noteq> 0
                      then uint ((m_Width t * m_Height t * (m_Depth t + 1) *
                                  TextureBitPerPixel ex (m_Format t)) div 8) else 0) \<and>
     (format \<noteq> UNKNOW \<longrightarrow>
        bm_memory (snd (DeleteBuffer ex
            (CreateEmpty ex width height depth format type mipMap (t, d)))) =
          bm_memory (snd (DeleteBuffer ex (t, d)))) \<and>
     (\<forall>p rest. map_of (m_TexturePool w) (GetKeyFromParams ex width height depth format type) =
          Some (p # rest) \<longrightarrow>
        bm_memory (device (snd (GetTempory ex width height depth format type w))) =
          bm_memory (device w)) \<and>
     (\<forall>v'. CollectTempory ex ptr v = Some v' \<longrightarrow> bm_memory (device v') = bm_memory (device v))"
   
    using reuse collect image CreateEmpty_memory [of ex width height depth format type mipMap t d]
      DeleteBuffer_memory [of ex t d]
      CreateEmpty_then_DeleteBuffer_memory [of format ex width height depth type mipMap t d]
    by blast
  have fp: "footprint ex t =
      (m_Width t * m_Height t * (m_Depth t + 1) * TextureBitPerPixel ex (m_Format t)) div 8"
    by (simp add: footprint_def)
  have made: "(m_ID (fst (CreateEmpty ex width height depth format type mipMap (t, d))) \<noteq> 0) =
        (format \<noteq> UNKNOW) \<and>
      gl_counter (snd (CreateEmpty ex width height depth format type mipMap (t, d))) =
        (if format \<noteq> UNKNOW then Suc (gl_counter d) else gl_counter d)"
    by (cases "m_ID t = 0"; cases "format = UNKNOW")
       (simp_all add: CreateEmpty_declines CreateEmpty_allocates Let_def DeleteBuffer_unallocated
         DeleteBuffer_allocated)
  have loaded: "gl_counter (snd (CreateFromImage ex filePath srgb mipMap (t, d))) =
      (if m_ID (fst (CreateFromImage ex filePath srgb mipMap (t, d))) \<noteq> 0
       then Suc (gl_counter d) else gl_counter d)"
    by (cases "m_ID t = 0")
       (simp_all add: CreateFromImage_def Let_def DeleteBuffer_unallocated DeleteBuffer_allocated
         glGenTextures_def IncreaseMemory_def BufferManager_IncreaseMemory_def)
  have deleted: "m_ID (fst (DeleteBuffer ex (t, d))) = 0 \<and>
      gl_counter (snd (DeleteBuffer ex (t, d))) = gl_counter d"
    by (cases "m_ID t = 0") (simp_all add: DeleteBuffer_unallocated DeleteBuffer_allocated)
  have reuse_frame: "\<forall>p rest.
      map_of (m_TexturePool w) (GetKeyFromParams ex width height depth format type) =
        Some (p # rest) \<longrightarrow>
      device (snd (GetTempory ex width height depth format type w)) = device w \<and>
      heap (snd (GetTempory ex width height depth format type w)) = heap w"
    by (simp add: GetTempory_reuse)
  have collect_frame: "\<forall>v'. CollectTempory ex ptr v = Some v' \<longrightarrow>
      device v' = device v \<and> heap v' = heap v"
    by (auto simp: CollectTempory_def Let_def split: option.splits)
  from old fp made loaded deleted reuse_frame collect_frame show ?thesis
    by (elim conjE) (intro conjI; assumption)
qed

theorem memory_accounting_witness:
  "bm_memory (snd (CreateEmpty Engine 4 4 0 RGBA8 TEXTURE_2D False
       (Texture_new Engine ''a'', device World_init))) = 64 \<and>
   bm_memory (snd (CreateFromImage Engine ''checker.png'' False False
       (Texture_new Engine ''a'', device World_init))) = 16 \<and>
   bm_memory (snd (DeleteBuffer Engine (Texture_4x4, device World_acquired))) = 0 \<and>
   RGBA8 \<noteq> UNKNOW \<and>
   bm_memory (snd (DeleteBuffer Engine (CreateEmpty Engine 4 4 0 RGBA8 TEXTURE_2D False
       (Texture_new Engine ''a'', device World_init)))) = 0 \<and>
   map_of (m_TexturePool World_released) (GetKeyFromParams Engine 4 4 0 RGBA8 TEXTURE_2D) = Some [0] \<and>
   bm_memory (device (snd (GetTempory Engine 4 4 0 RGBA8 TEXTURE_2D World_released))) = 64 \<and>
   CollectTempory Engine 0 World_acquired = Some World_released \<and>
   bm_memory (device World_released) = 64"
proof -
  note fresh = memory_accounting [of Engine 4 4 0 RGBA8 TEXTURE_2D False "Texture_new Engine ''a''"
      "device World_init" "''checker.png''" False World_released 0 World_acquired]
  note held = memory_accounting [of Engine 4 4 0 RGBA8 TEXTURE_2D False Texture_4x4
      "device World_acquired" "''checker.png''" False World_released 0 World_acquired]
  have created: "bm_memory (snd (CreateEmpty Engine 4 4 0 RGBA8 TEXTURE_2D False
       (Texture_new Engine ''a'', device World_init))) = 64"
    using fresh [THEN conjunct1]
    by (simp add: Texture_new_def World_init_def Engine_fields)
  have deleted: "bm_memory (snd (DeleteBuffer Engine (Texture_4x4, device World_acquired))) = 0"
    using held [THEN conjunct2, THEN conjunct2, THEN conjunct1]
    by (simp add: Texture_4x4_def World_acquired_def Engine_fields)
  have cancelled: "bm_memory (snd (DeleteBuffer Engine (CreateEmpty Engine 4 4 0 RGBA8
       TEXTURE_2D False (Texture_new Engine ''a'', device World_init)))) = 0"
    using fresh [THEN conjunct2, THEN conjunct2, THEN conjunct2, THEN conjunct1]
    by (simp add: DeleteBuffer_unallocated Texture_new_def World_init_def)
  have loaded: "bm_memory (snd (CreateFromImage Engine ''checker.png'' False False
       (Texture_new Engine ''a'', device World_init))) = 16"
    by (simp add: CreateFromImage_def DeleteBuffer_unallocated Texture_new_def Let_def
        Engine_fields glGenTextures_def IncreaseMemory_def BufferManager_IncreaseMemory_def
        footprint_def World_init_def)
  have pool: "map_of (m_TexturePool World_released)
        (GetKeyFromParams Engine 4 4 0 RGBA8 TEXTURE_2D) = Some [0] \<and>
      bm_memory (device (snd (GetTempory Engine 4 4 0 RGBA8 TEXTURE_2D World_released))) = 64 \<and>
      CollectTempory Engine 0 World_acquired = Some World_released \<and>
      bm_memory (device World_released) = 64"
    using fresh [THEN conjunct2, THEN conjunct2, THEN conjunct2, THEN conjunct2, THEN conjunct1]
    by (simp add: key_4x4 World_released_reached)
       (simp add: World_released_def World_acquired_def)
  from created loaded deleted cancelled pool show ?thesis
    by simp
qed

subsection \<open>C8: the shape key\<close>

lemma digit_char_cases:
  "d < 10 \<Longrightarrow> d = 0 \<or> d = 1 \<or> d = 2 \<or> d = 3 \<or> d = 4 \<or> d = 5 \<or> d = 6 \<or> d = 7 \<or> d = 8 \<or> d = (9::nat)"
  by arith

lemma digit_char_inj:
  assumes "a < 10" and "b < 10" and "digit_char a = digit_char b"
  shows "a = b"
proof -
  have d: "distinct ''0123456789''"
    by simp
  have "''0123456789'' ! a = ''0123456789'' ! b"
    using assms(3) by (simp add: digit_char_def)
  then show ?thesis
    using assms(1,2) d by (simp add: nth_eq_iff_index_eq)
qed

lemma digit_char_plain:
  assumes "d < 10"
  shows "digit_char d \<noteq> CHR ''*'' \<and> digit_char d \<noteq> CHR ''-''"
  using digit_char_cases [OF assms] by (auto simp: digit_char_def)

lemma show_nat_plain: "c \<in> set (show_nat n) \<Longrightarrow> c \<noteq> CHR ''*'' \<and> c \<noteq> CHR ''-''"
proof (induction n arbitrary: c rule: show_nat.induct)
  case (1 n)
  show ?case
  proof (cases "n < 10")
    case True
    with "1.prems" show ?thesis
      using digit_char_plain [of n] by (simp add: show_nat.simps [of n])
  next
    case False
    with "1.prems" "1.IH" show ?thesis
      using digit_char_plain [of "n mod 10"] by (auto simp: show_nat.simps [of n])
  qed
qed

lemma show_nat_not_Nil: "show_nat n \<noteq> []"
  by (simp add: show_nat.simps [of n])

lemma show_nat_inj: "show_nat n = show_nat m \<Longrightarrow> n = m"
proof (induction n arbitrary: m rule: show_nat.induct)
  case (1 n)
  show ?case
  proof (cases "n < 10")
    case n: True
    show ?thesis
    proof (cases "m < 10")
      case True
      with n "1.prems" show ?thesis
        by (simp add: show_nat.simps [of n] show_nat.simps [of m] digit_char_inj)
    next
      case False
      with n "1.prems" show_nat_not_Nil [of "m div 10"] show ?thesis
        by (simp add: show_nat.simps [of n] show_nat.simps [of m])
    qed
  next
    case n: False
    show ?thesis
    proof (cases "m < 10")
      case True
      with n "1.prems" show_nat_not_Nil [of "n div 10"] show ?thesis
        by (simp add: show_nat.simps [of n] show_nat.simps [of m])
    next
      case False
      with n "1.prems" have "show_nat (n div 10) = show_nat (m div 10)"
        and "digit_char (n mod 10) = digit_char (m mod 10)"
        by (simp_all add: show_nat.simps [of n] show_nat.simps [of m])
      then have "n div 10 = m div 10" and "n mod 10 = m mod 10"
        using "1.IH" [OF n] by (simp_all add: digit_char_inj)
      then show ?thesis
        by (metis div_mult_mod_eq)
    qed
  qed
qed

lemma show_int_inj: "show_int i = show_int j \<Longrightarrow> i = j"
proof -
  assume eq: "show_int i = show_int j"
  have head: "hd (show_nat n) \<noteq> CHR ''-''" for n
    using show_nat_plain [of "hd (show_nat n)" n] show_nat_not_Nil [of n] by simp
  show ?thesis
  proof (cases "i < 0")
    case i: True
    show ?thesis
    proof (cases "j < 0")
      case True
      with i eq have "nat (- i) = nat (- j)"
        by (simp add: show_int_def show_nat_inj)
      with i True show ?thesis by simp
    next
      case False
      with i eq have "CHR ''-'' # show_nat (nat (- i)) = show_nat (nat j)"
        by (simp add: show_int_def)
      then have "hd (show_nat (nat j)) = CHR ''-''"
        by (metis list.sel(1))
      with head show ?thesis by simp
    qed
  next
    case i: False
    show ?thesis
    proof (cases "j < 0")
      case True
      with i eq have "show_nat (nat i) = CHR ''-'' # show_nat (nat (- j))"
        by (simp add: show_int_def)
      then have "hd (show_nat (nat i)) = CHR ''-''"
        by (metis list.sel(1))
      with head show ?thesis by simp
    next
      case False
      with i eq have "nat i = nat j"
        by (simp add: show_int_def show_nat_inj)
      with i False show ?thesis by simp
    qed
  qed
qed

lemma show_int_no_star: "CHR ''*'' \<notin> set (show_int i)"
  using show_nat_plain [of "CHR ''*''"] by (auto simp: show_int_def)

lemma split_at_star:
  assumes "a @ CHR ''*'' # x = b @ CHR ''*'' # y"
    and "CHR ''*'' \<notin> set a" and "CHR ''*'' \<notin> set b"
  shows "a = b \<and> x = y"
  using assms
proof (induction a arbitrary: b)
  case Nil
  then show ?case by (cases b) auto
next
  case (Cons c a)
  then show ?case by (cases b) auto
qed

text \<open>
  C8. The key \<^verbatim>\<open>GetKeyFromParams\<close> builds is injective on shape tuples: two tuples
  (width, height, depth, format, type) have the same key exactly when they are equal
  component by component; and \<^verbatim>\<open>GetKeyFromPtr\<close> of a texture is \<^verbatim>\<open>GetKeyFromParams\<close>
  of its current width, height, depth, format and type. The names \<^verbatim>\<open>EnumUtil\<close> gives
  to formats and types are parameters: the statement is for names that differ between
  members, format names being free of the separator \<open>*\<close>.
\<close>

theorem GetKeyFromParams_injective:
  assumes inj_format: "inj (TextureFormatToString ex)"
    and inj_type: "inj (TextureTypeToString ex)"
    and star: "\<forall>f. CHR ''*'' \<notin> set (TextureFormatToString ex f)"
  shows "(GetKeyFromParams ex w1 h1 d1 f1 ty1 = GetKeyFromParams ex w2 h2 d2 f2 ty2 \<longleftrightarrow>
            w1 = w2 \<and> h1 = h2 \<and> d1 = d2 \<and> f1 = f2 \<and> ty1 = ty2) \<and>
         GetKeyFromPtr ex t =
           GetKeyFromParams ex (m_Width t) (m_Height t) (m_Depth t) (m_Format t) (m_Type t)"
proof -
  have "w1 = w2 \<and> h1 = h2 \<and> d1 = d2 \<and> f1 = f2 \<and> ty1 = ty2"
    if eq: "GetKeyFromParams ex w1 h1 d1 f1 ty1 = GetKeyFromParams ex w2 h2 d2 f2 ty2"
  proof -
    from eq have e1: "show_int (sint w1) @ CHR ''*'' #
          (show_int (sint h1) @ CHR ''*'' # (show_int (sint d1) @ CHR ''*'' #
            (TextureFormatToString ex f1 @ CHR ''*'' # TextureTypeToString ex ty1))) =
        show_int (sint w2) @ CHR ''*'' #
          (show_int (sint h2) @ CHR ''*'' # (show_int (sint d2) @ CHR ''*'' #
            (TextureFormatToString ex f2 @ CHR ''*'' # TextureTypeToString ex ty2)))"
      by (simp add: GetKeyFromParams_def)
    from split_at_star [OF e1 show_int_no_star show_int_no_star]
    have w: "show_int (sint w1) = show_int (sint w2)"
      and e2: "show_int (sint h1) @ CHR ''*'' # (show_int (sint d1) @ CHR ''*'' #
            (TextureFormatToString ex f1 @ CHR ''*'' # TextureTypeToString ex ty1)) =
          show_int (sint h2) @ CHR ''*'' # (show_int (sint d2) @ CHR ''*'' #
            (TextureFormatToString ex f2 @ CHR ''*'' # TextureTypeToString ex ty2))"
      by simp_all
    from split_at_star [OF e2 show_int_no_star show_int_no_star]
    have h: "show_int (sint h1) = show_int (sint h2)"
      and e3: "show_int (sint d1) @ CHR ''*'' #
            (TextureFormatToString ex f1 @ CHR ''*'' # TextureTypeToString ex ty1) =
          show_int (sint d2) @ CHR ''*'' #
            (TextureFormatToString ex f2 @ CHR ''*'' # TextureTypeToString ex ty2)"
      by simp_all
    from split_at_star [OF e3 show_int_no_star show_int_no_star]
    have d: "show_int (sint d1) = show_int (sint d2)"
      and e4: "TextureFormatToString ex f1 @ CHR ''*'' # TextureTypeToString ex ty1 =
          TextureFormatToString ex f2 @ CHR ''*'' # TextureTypeToString ex ty2"
      by simp_all
    from split_at_star [OF e4] star
    have f: "TextureFormatToString ex f1 = TextureFormatToString ex f2"
      and ty: "TextureTypeToString ex ty1 = TextureTypeToString ex ty2"
      by simp_all
    from w h d have "sint w1 = sint w2" "sint h1 = sint h2" "sint d1 = sint d2"
      by (simp_all add: show_int_inj)
    then have "w1 = w2" "h1 = h2" "d1 = d2"
      by (simp_all add: signed_word_eqI)
    moreover have "f1 = f2"
      using f inj_format by (simp add: inj_eq)
    moreover have "ty1 = ty2"
      using ty inj_type by (simp add: inj_eq)
    ultimately show ?thesis
      by simp
  qed
  then show ?thesis
    by (auto simp: GetKeyFromPtr_def)
qed

lemma Engine_format_names_inj: "inj (TextureFormatToString Engine)"
proof (rule injI)
  fix x y
  assume "TextureFormatToString Engine x = TextureFormatToString Engine y"
  then show "x = y"
    by (cases x; cases y) (simp_all add: Engine_def show_nat_inj)
qed

lemma Engine_type_names_inj: "inj (TextureTypeToString Engine)"
proof (rule injI)
  fix x y
  assume "TextureTypeToString Engine x = TextureTypeToString Engine y"
  then show "x = y"
    by (cases x; cases y) (simp_all add: Engine_def show_nat_inj)
qed

lemma Engine_format_names_no_star: "\<forall>f. CHR ''*'' \<notin> set (TextureFormatToString Engine f)"
proof
  fix f
  show "CHR ''*'' \<notin> set (TextureFormatToString Engine f)"
    using show_nat_plain [of "CHR ''*''"] by (cases f) (auto simp: Engine_def)
qed

theorem GetKeyFromParams_injective_witness:
  "inj (TextureFormatToString Engine) \<and> inj (TextureTypeToString Engine) \<and>
   (\<forall>f. CHR ''*'' \<notin> set (TextureFormatToString Engine f)) \<and>
   GetKeyFromParams Engine 4 4 0 RGBA8 TEXTURE_2D \<noteq> GetKeyFromParams Engine 4 4 0 RGBA8 TEXTURE_2D_ARRAY \<and>
   GetKeyFromParams Engine 4 4 0 RGBA8 TEXTURE_2D \<noteq> GetKeyFromParams Engine 4 (- 4) 0 RGBA8 TEXTURE_2D \<and>
   GetKeyFromPtr Engine Texture_4x4 = GetKeyFromParams Engine 4 4 0 RGBA8 TEXTURE_2D \<and>
   GetKeyFromParams Engine 4 4 0 RGBA8 TEXTURE_2D = ''4*4*0*rgba8*2d'' \<and>
   GetKeyFromParams Engine 4 (- 4) 0 RGBA8 TEXTURE_2D = ''4*-4*0*rgba8*2d''"
  using Engine_format_names_inj Engine_type_names_inj Engine_format_names_no_star
    GetKeyFromParams_injective [OF Engine_format_names_inj Engine_type_names_inj
      Engine_format_names_no_star, of 4 4 0 RGBA8 TEXTURE_2D 4 4 0 RGBA8 TEXTURE_2D_ARRAY Texture_4x4]
    GetKeyFromParams_injective [OF Engine_format_names_inj Engine_type_names_inj
      Engine_format_names_no_star, of 4 4 0 RGBA8 TEXTURE_2D 4 "- 4" 0 RGBA8 TEXTURE_2D Texture_4x4]
  by (simp add: Texture_4x4_def)
     (simp add: GetKeyFromParams_def show_int_def show_nat_digit digit_char_def Engine_fields)

subsection \<open>C5: release into the pool\<close>

text \<open>
  C5. \<^verbatim>\<open>CollectTempory\<close>, given a pointer to a texture, pushes the pointer on the free
  stack of the texture's shape key, the key \<^verbatim>\<open>GetKeyFromParams\<close> builds from the
  texture's current width, height, depth, format and type, creating that stack when the
  key has none. It does not deallocate: the objects, the byte total, the OpenGL names and
  the registry stay as they were, and so does the stack of every other key.
\<close>

theorem CollectTempory_pushes:
  assumes "heap w p = Some t"
  shows "\<exists>w'. CollectTempory ex p w = Some w' \<and>
           map_of (m_TexturePool w')
               (GetKeyFromParams ex (m_Width t) (m_Height t) (m_Depth t) (m_Format t) (m_Type t)) =
             Some (p # (case map_of (m_TexturePool w)
                              (GetKeyFromParams ex (m_Width t) (m_Height t) (m_Depth t)
                                 (m_Format t) (m_Type t)) of
                          None \<Rightarrow> [] | Some s \<Rightarrow> s)) \<and>
           (\<forall>k. k \<noteq> GetKeyFromParams ex (m_Width t) (m_Height t) (m_Depth t)
                         (m_Format t) (m_Type t) \<longrightarrow>
                  map_of (m_TexturePool w') k = map_of (m_TexturePool w) k) \<and>
           heap w' = heap w \<and> device w' = device w \<and> bm_buffers w' = bm_buffers w \<and>
           next_ptr w' = next_ptr w"
proof -
  let ?key = "GetKeyFromParams ex (m_Width t) (m_Height t) (m_Depth t) (m_Format t) (m_Type t)"
  have key: "GetKeyFromPtr ex t = ?key"
    by (simp add: GetKeyFromPtr_def)
  obtain w' where w': "CollectTempory ex p w = Some w'"
    using assms by (simp add: CollectTempory_Some)
  have frame: "heap w' = heap w \<and> device w' = device w \<and> bm_buffers w' = bm_buffers w \<and>
      next_ptr w' = next_ptr w"
    using assms w' by (auto simp: CollectTempory_Some)
  have pool: "\<And>k. map_of (m_TexturePool w') k =
      (if k = ?key
       then Some (p # (case map_of (m_TexturePool w) k of None \<Rightarrow> [] | Some s \<Rightarrow> s))
       else map_of (m_TexturePool w) k)"
    using CollectTempory_pool [OF assms w'] key by simp
  show ?thesis
    using w' frame pool by simp
qed

theorem CollectTempory_pushes_witness:
  "heap (World_acquired\<lparr>heap := [0 \<mapsto> Texture_4x4\<lparr>m_Name := ''shadow''\<rparr>]\<rparr>) 0 =
     Some (Texture_4x4\<lparr>m_Name := ''shadow''\<rparr>) \<and>
   GetKeyFromParams Engine 4 4 0 RGBA8 TEXTURE_2D = ''4*4*0*rgba8*2d'' \<and>
   (\<exists>w'. CollectTempory Engine 0
            (World_acquired\<lparr>heap := [0 \<mapsto> Texture_4x4\<lparr>m_Name := ''shadow''\<rparr>]\<rparr>) = Some w' \<and>
      map_of (m_TexturePool w') ''4*4*0*rgba8*2d'' = Some [0] \<and>
      map_of (m_TexturePool w') ''shadow'' = None \<and>
      heap w' = [0 \<mapsto> Texture_4x4\<lparr>m_Name := ''shadow''\<rparr>] \<and>
      device w' = device World_acquired)"
proof -
  have h: "heap (World_acquired\<lparr>heap := [0 \<mapsto> Texture_4x4\<lparr>m_Name := ''shadow''\<rparr>]\<rparr>) 0 =
      Some (Texture_4x4\<lparr>m_Name := ''shadow''\<rparr>)"
    by simp
  have fields: "m_Width (Texture_4x4\<lparr>m_Name := ''shadow''\<rparr>) = 4"
    "m_Height (Texture_4x4\<lparr>m_Name := ''shadow''\<rparr>) = 4"
    "m_Depth (Texture_4x4\<lparr>m_Name := ''shadow''\<rparr>) = 0"
    "m_Format (Texture_4x4\<lparr>m_Name := ''shadow''\<rparr>) = RGBA8"
    "m_Type (Texture_4x4\<lparr>m_Name := ''shadow''\<rparr>) = TEXTURE_2D"
    by (simp_all add: Texture_4x4_def)
  show ?thesis
    using h CollectTempory_pushes [OF h, of Engine]
    by (auto simp: fields key_4x4 World_acquired_def)
qed

subsection \<open>C1: acquire from the pool\<close>

lemma GetTempory_create_world:
  assumes "map_of (m_TexturePool w) (GetKeyFromParams ex width height depth format type) = None \<or>
     map_of (m_TexturePool w) (GetKeyFromParams ex width height depth format type) = Some []"
  shows "fst (GetTempory ex width height depth format type w) = next_ptr w"
    and "next_ptr (snd (GetTempory ex width height depth format type w)) = Suc (next_ptr w)"
    and "bm_buffers (snd (GetTempory ex width height depth format type w)) =
           insert (next_ptr w) (bm_buffers w)"
    and "m_TexturePool (snd (GetTempory ex width height depth format type w)) = m_TexturePool w"
    and "heap (snd (GetTempory ex width height depth format type w)) =
           (heap w)(next_ptr w \<mapsto>
              fst (CreateEmpty ex width height depth format type (CreateEmpty_mipMap_default ex)
                     (Texture_new ex (GetKeyFromParams ex width height depth format type),
                      device w)))"
    and "device (snd (GetTempory ex width height depth format type w)) =
           snd (CreateEmpty ex width height depth format type (CreateEmpty_mipMap_default ex)
                  (Texture_new ex (GetKeyFromParams ex width height depth format type),
                   device w))"
  by (simp_all add: GetTempory_create [OF assms] Let_def)

lemma CreateEmpty_Texture_new:
  "format \<noteq> UNKNOW \<Longrightarrow>
   CreateEmpty ex width height depth format type mipMap (Texture_new ex name, d) =
     ((Texture_new ex name)\<lparr>m_Mipmap := mipMap, m_Format := format, m_Dirty := False,
         m_Width := width, m_Height := height, m_Depth := depth, m_Type := type,
         m_TypeUint := TextureTypeToUnit ex type, m_ID := Suc (gl_counter d)\<rparr>,
      d\<lparr>gl_counter := Suc (gl_counter d), gl_live := insert (Suc (gl_counter d)) (gl_live d),
         bm_memory := bm_memory d +
           uint ((width * height * (depth + 1) * TextureBitPerPixel ex format) div 8)\<rparr>)"
  by (simp add: CreateEmpty_allocates Let_def DeleteBuffer_unallocated Texture_new_def)

lemma CreateEmpty_Texture_new_UNKNOW:
  "CreateEmpty ex width height depth UNKNOW type mipMap (Texture_new ex name, d) =
     (Texture_new ex name, d)"
  by (simp add: CreateEmpty_declines DeleteBuffer_unallocated Texture_new_def)

text \<open>
  C1, as amended. \<^verbatim>\<open>GetTempory\<close> with a non-empty free stack for the key pops and
  returns the top of that stack and changes nothing else. Otherwise it creates a new
  texture object, at the next address, which then advances, so the object is on no free
  stack of a pool that satisfies the invariant and no earlier live object when the
  addresses from the next one on are unused, and registers it. When the format is not
  \<open>UNKNOW\<close> that texture is allocated with the requested shape (its key is the
  requested key) and the byte total grows by its footprint. When the format is
  \<open>UNKNOW\<close> the new texture stays as constructed: unallocated, with the default shape
  (width, height and depth 0, format \<open>UNKNOW\<close>, type \<open>TEXTURE_2D\<close>) and not the
  requested one, and the byte total is unchanged.
\<close>

theorem GetTempory_acquire:
  "(let key = GetKeyFromParams ex width height depth format type;
        r = GetTempory ex width height depth format type w
    in (\<forall>p rest. map_of (m_TexturePool w) key = Some (p # rest) \<longrightarrow>
          fst r = p \<and> map_of (m_TexturePool (snd r)) key = Some rest \<and>
          (\<forall>k. k \<noteq> key \<longrightarrow> map_of (m_TexturePool (snd r)) k = map_of (m_TexturePool w) k) \<and>
          heap (snd r) = heap w \<and> device (snd r) = device w \<and>
          bm_buffers (snd r) = bm_buffers w \<and> next_ptr (snd r) = next_ptr w) \<and>
       (map_of (m_TexturePool w) key = None \<or> map_of (m_TexturePool w) key = Some [] \<longrightarrow>
          fst r = next_ptr w \<and> next_ptr (snd r) = Suc (next_ptr w) \<and>
          fst r \<in> bm_buffers (snd r) \<and>
          bm_buffers (snd r) = insert (next_ptr w) (bm_buffers w) \<and>
          m_TexturePool (snd r) = m_TexturePool w \<and>
          (\<forall>q. q \<noteq> fst r \<longrightarrow> heap (snd r) q = heap w q) \<and>
          (pool_keyed ex w \<longrightarrow> fst r \<notin> set (pooled w)) \<and>
          ((\<forall>q. next_ptr w \<le> q \<longrightarrow> heap w q = None) \<longrightarrow>
             heap w (fst r) = None \<and>
             (\<forall>q. next_ptr (snd r) \<le> q \<longrightarrow> heap (snd r) q = None)) \<and>
          (\<exists>t. heap (snd r) (fst r) = Some t \<and>
             (format \<noteq> UNKNOW \<longrightarrow>
                GetKeyFromPtr ex t = key \<and> m_ID t \<noteq> 0 \<and> m_ID t \<in> gl_live (device (snd r)) \<and>
                m_Width t = width \<and> m_Height t = height \<and> m_Depth t = depth \<and>
                m_Format t = format \<and> m_Type t = type \<and>
                bm_memory (device (snd r)) = bm_memory (device w) + uint (footprint ex t) \<and>
                t = (Texture_new ex key)\<lparr>m_Mipmap := CreateEmpty_mipMap_default ex,
                      m_Format := format, m_Dirty := False, m_Width := width,
                      m_Height := height, m_Depth := depth, m_Type := type,
                      m_TypeUint := TextureTypeToUnit ex type,
                      m_ID := Suc (gl_counter (device w))\<rparr> \<and>
                device (snd r) =
                  (device w)\<lparr>gl_counter := Suc (gl_counter (device w)),
                     gl_live := insert (Suc (gl_counter (device w))) (gl_live (device w)),
                     bm_memory := bm_memory (device w) +
                       uint ((width * height * (depth + 1) * TextureBitPerPixel ex format)
                             div 8)\<rparr>) \<and>
             (format = UNKNOW \<longrightarrow>
                m_ID t = 0 \<and> device (snd r) = device w \<and>
                t = Texture_new ex key \<and>
                m_Width t = 0 \<and> m_Height t = 0 \<and> m_Depth t = 0 \<and> m_Format t = UNKNOW \<and>
                m_Type t = TEXTURE_2D \<and>
                GetKeyFromPtr ex t = GetKeyFromParams ex 0 0 0 UNKNOW TEXTURE_2D))))"
proof -
  let ?key = "GetKeyFromParams ex width height depth format type"
  let ?r = "GetTempory ex width height depth format type w"
  have reuse: "fst ?r = p \<and> map_of (m_TexturePool (snd ?r)) ?key = Some rest \<and>
      (\<forall>k. k \<noteq> ?key \<longrightarrow> map_of (m_TexturePool (snd ?r)) k = map_of (m_TexturePool w) k) \<and>
      heap (snd ?r) = heap w \<and> device (snd ?r) = device w \<and>
      bm_buffers (snd ?r) = bm_buffers w \<and> next_ptr (snd ?r) = next_ptr w"
    if "map_of (m_TexturePool w) ?key = Some (p # rest)" for p rest
    using that by (simp add: GetTempory_reuse map_of_set_stack)
  have create: "fst ?r = next_ptr w \<and> next_ptr (snd ?r) = Suc (next_ptr w) \<and>
      fst ?r \<in> bm_buffers (snd ?r) \<and>
      bm_buffers (snd ?r) = insert (next_ptr w) (bm_buffers w) \<and>
      m_TexturePool (snd ?r) = m_TexturePool w \<and>
      (\<forall>q. q \<noteq> fst ?r \<longrightarrow> heap (snd ?r) q = heap w q) \<and>
      (pool_keyed ex w \<longrightarrow> fst ?r \<notin> set (pooled w)) \<and>
      ((\<forall>q. next_ptr w \<le> q \<longrightarrow> heap w q = None) \<longrightarrow>
         heap w (fst ?r) = None \<and>
         (\<forall>q. next_ptr (snd ?r) \<le> q \<longrightarrow> heap (snd ?r) q = None)) \<and>
      (\<exists>t. heap (snd ?r) (fst ?r) = Some t \<and>
         (format \<noteq> UNKNOW \<longrightarrow>
            GetKeyFromPtr ex t = ?key \<and> m_ID t \<noteq> 0 \<and> m_ID t \<in> gl_live (device (snd ?r)) \<and>
            m_Width t = width \<and> m_Height t = height \<and> m_Depth t = depth \<and>
            m_Format t = format \<and> m_Type t = type \<and>
            bm_memory (device (snd ?r)) = bm_memory (device w) + uint (footprint ex t) \<and>
            t = (Texture_new ex ?key)\<lparr>m_Mipmap := CreateEmpty_mipMap_default ex,
                  m_Format := format, m_Dirty := False, m_Width := width,
                  m_Height := height, m_Depth := depth, m_Type := type,
                  m_TypeUint := TextureTypeToUnit ex type,
                  m_ID := Suc (gl_counter (device w))\<rparr> \<and>
            device (snd ?r) =
              (device w)\<lparr>gl_counter := Suc (gl_counter (device w)),
                 gl_live := insert (Suc (gl_counter (device w))) (gl_live (device w)),
                 bm_memory := bm_memory (device w) +
                   uint ((width * height * (depth + 1) * TextureBitPerPixel ex format)
                         div 8)\<rparr>) \<and>
         (format = UNKNOW \<longrightarrow>
            m_ID t = 0 \<and> device (snd ?r) = device w \<and>
            t = Texture_new ex ?key \<and>
            m_Width t = 0 \<and> m_Height t = 0 \<and> m_Depth t = 0 \<and> m_Format t = UNKNOW \<and>
            m_Type t = TEXTURE_2D \<and>
            GetKeyFromPtr ex t = GetKeyFromParams ex 0 0 0 UNKNOW TEXTURE_2D))"
    if miss: "map_of (m_TexturePool w) ?key = None \<or> map_of (m_TexturePool w) ?key = Some []"
  proof -
    note world = GetTempory_create_world [OF miss]
    have off_pool: "next_ptr w \<notin> set (pooled w)" if inv: "pool_keyed ex w"
    proof
      assume "next_ptr w \<in> set (pooled w)"
      then obtain k s where "(k, s) \<in> set (m_TexturePool w)" and "next_ptr w \<in> set s"
        by (auto simp: pooled_def)
      from pool_keyedD [OF inv this] show False
        by simp
    qed
    have frame: "fst ?r = next_ptr w \<and> next_ptr (snd ?r) = Suc (next_ptr w) \<and>
        fst ?r \<in> bm_buffers (snd ?r) \<and>
        bm_buffers (snd ?r) = insert (next_ptr w) (bm_buffers w) \<and>
        m_TexturePool (snd ?r) = m_TexturePool w \<and>
        (\<forall>q. q \<noteq> fst ?r \<longrightarrow> heap (snd ?r) q = heap w q) \<and>
        (pool_keyed ex w \<longrightarrow> fst ?r \<notin> set (pooled w)) \<and>
        ((\<forall>q. next_ptr w \<le> q \<longrightarrow> heap w q = None) \<longrightarrow>
           heap w (fst ?r) = None \<and>
           (\<forall>q. next_ptr (snd ?r) \<le> q \<longrightarrow> heap (snd ?r) q = None))"
      using off_pool by (simp add: world)
    let ?made = "CreateEmpty ex width height depth format type (CreateEmpty_mipMap_default ex)
        (Texture_new ex ?key, device w)"
    have tex: "heap (snd ?r) (fst ?r) = Some (fst ?made)"
      and dev: "device (snd ?r) = snd ?made"
      by (simp_all add: world)
    have alloc: "format \<noteq> UNKNOW \<longrightarrow>
        GetKeyFromPtr ex (fst ?made) = ?key \<and> m_ID (fst ?made) \<noteq> 0 \<and>
        m_ID (fst ?made) \<in> gl_live (device (snd ?r)) \<and>
        m_Width (fst ?made) = width \<and> m_Height (fst ?made) = height \<and>
        m_Depth (fst ?made) = depth \<and> m_Format (fst ?made) = format \<and>
        m_Type (fst ?made) = type \<and>
        bm_memory (device (snd ?r)) = bm_memory (device w) + uint (footprint ex (fst ?made)) \<and>
        fst ?made = (Texture_new ex ?key)\<lparr>m_Mipmap := CreateEmpty_mipMap_default ex,
              m_Format := format, m_Dirty := False, m_Width := width,
              m_Height := height, m_Depth := depth, m_Type := type,
              m_TypeUint := TextureTypeToUnit ex type,
              m_ID := Suc (gl_counter (device w))\<rparr> \<and>
        device (snd ?r) =
          (device w)\<lparr>gl_counter := Suc (gl_counter (device w)),
             gl_live := insert (Suc (gl_counter (device w))) (gl_live (device w)),
             bm_memory := bm_memory (device w) +
               uint ((width * height * (depth + 1) * TextureBitPerPixel ex format)
                     div 8)\<rparr>"
      using dev by (simp add: CreateEmpty_Texture_new GetKeyFromPtr_def footprint_def)
    have decline: "m_ID (fst ?made) = 0 \<and> device (snd ?r) = device w \<and>
        fst ?made = Texture_new ex ?key \<and>
        m_Width (fst ?made) = 0 \<and> m_Height (fst ?made) = 0 \<and> m_Depth (fst ?made) = 0 \<and>
        m_Format (fst ?made) = UNKNOW \<and> m_Type (fst ?made) = TEXTURE_2D \<and>
        GetKeyFromPtr ex (fst ?made) = GetKeyFromParams ex 0 0 0 UNKNOW TEXTURE_2D"
      if "format = UNKNOW"
    proof -
      have "?made = (Texture_new ex ?key, device w)"
        using that by (simp add: CreateEmpty_Texture_new_UNKNOW)
      then show ?thesis
        using dev by (simp add: GetKeyFromPtr_def Texture_new_def)
    qed
    from tex alloc decline have made: "\<exists>t. heap (snd ?r) (fst ?r) = Some t \<and>
         (format \<noteq> UNKNOW \<longrightarrow>
            GetKeyFromPtr ex t = ?key \<and> m_ID t \<noteq> 0 \<and> m_ID t \<in> gl_live (device (snd ?r)) \<and>
            m_Width t = width \<and> m_Height t = height \<and> m_Depth t = depth \<and>
            m_Format t = format \<and> m_Type t = type \<and>
            bm_memory (device (snd ?r)) = bm_memory (device w) + uint (footprint ex t) \<and>
            t = (Texture_new ex ?key)\<lparr>m_Mipmap := CreateEmpty_mipMap_default ex,
                  m_Format := format, m_Dirty := False, m_Width := width,
                  m_Height := height, m_Depth := depth, m_Type := type,
                  m_TypeUint := TextureTypeToUnit ex type,
                  m_ID := Suc (gl_counter (device w))\<rparr> \<and>
            device (snd ?r) =
              (device w)\<lparr>gl_counter := Suc (gl_counter (device w)),
                 gl_live := insert (Suc (gl_counter (device w))) (gl_live (device w)),
                 bm_memory := bm_memory (device w) +
                   uint ((width * height * (depth + 1) * TextureBitPerPixel ex format)
                         div 8)\<rparr>) \<and>
         (format = UNKNOW \<longrightarrow>
            m_ID t = 0 \<and> device (snd ?r) = device w \<and>
            t = Texture_new ex ?key \<and>
            m_Width t = 0 \<and> m_Height t = 0 \<and> m_Depth t = 0 \<and> m_Format t = UNKNOW \<and>
            m_Type t = TEXTURE_2D \<and>
            GetKeyFromPtr ex t = GetKeyFromParams ex 0 0 0 UNKNOW TEXTURE_2D)"
      by (intro exI [of _ "fst ?made"]) blast
    from frame made show ?thesis
      by (elim conjE) (intro conjI; assumption)
  qed
  show ?thesis
    unfolding Let_def using reuse create by blast
qed


theorem GetTempory_acquire_witness:
  "map_of (m_TexturePool World_released) (GetKeyFromParams Engine 4 4 0 RGBA8 TEXTURE_2D) = Some [0] \<and>
   fst (GetTempory Engine 4 4 0 RGBA8 TEXTURE_2D World_released) = 0 \<and>
   map_of (m_TexturePool (snd (GetTempory Engine 4 4 0 RGBA8 TEXTURE_2D World_released)))
     (GetKeyFromParams Engine 4 4 0 RGBA8 TEXTURE_2D) = Some [] \<and>
   device (snd (GetTempory Engine 4 4 0 RGBA8 TEXTURE_2D World_released)) = device World_released \<and>
   map_of (m_TexturePool World_init) (GetKeyFromParams Engine 4 4 0 RGBA8 TEXTURE_2D) = None \<and>
   RGBA8 \<noteq> UNKNOW \<and> pool_keyed Engine World_init \<and> heap World_init = Map.empty \<and>
   fst (GetTempory Engine 4 4 0 RGBA8 TEXTURE_2D World_init) = next_ptr World_init \<and>
   next_ptr (snd (GetTempory Engine 4 4 0 RGBA8 TEXTURE_2D World_init)) = 1 \<and>
   fst (GetTempory Engine 4 4 0 RGBA8 TEXTURE_2D World_init)
     \<in> bm_buffers (snd (GetTempory Engine 4 4 0 RGBA8 TEXTURE_2D World_init)) \<and>
   fst (GetTempory Engine 4 4 0 RGBA8 TEXTURE_2D World_init) \<notin> set (pooled World_init) \<and>
   heap (snd (GetTempory Engine 4 4 0 RGBA8 TEXTURE_2D World_init)) 0 = Some Texture_4x4 \<and>
   heap (snd (GetTempory Engine 4 4 0 RGBA8 TEXTURE_2D World_init)) 1 = None \<and>
   bm_memory (device (snd (GetTempory Engine 4 4 0 RGBA8 TEXTURE_2D World_init))) = 64 \<and>
   map_of (m_TexturePool World_init) (GetKeyFromParams Engine 4 4 0 UNKNOW TEXTURE_2D) = None \<and>
   heap (snd (GetTempory Engine 4 4 0 UNKNOW TEXTURE_2D World_init)) 0 =
     Some (Texture_new Engine ''4*4*0*unknow*2d'') \<and>
   m_Width (Texture_new Engine ''4*4*0*unknow*2d'') = 0 \<and>
   next_ptr (snd (GetTempory Engine 4 4 0 UNKNOW TEXTURE_2D World_init)) = 1 \<and>
   device (snd (GetTempory Engine 4 4 0 UNKNOW TEXTURE_2D World_init)) = device World_init"
  using GetTempory_acquire [of Engine 4 4 0 RGBA8 TEXTURE_2D World_released]
    GetTempory_acquire [of Engine 4 4 0 RGBA8 TEXTURE_2D World_init]
    GetTempory_acquire [of Engine 4 4 0 UNKNOW TEXTURE_2D World_init]
    pool_keyed_init [of Engine]
  by (simp add: Let_def key_4x4 key_unknow World_released_def World_acquired_reached
      World_unknow_reached)
     (simp add: World_acquired_def World_init_def World_unknow_def Texture_new_def pooled_def)

theorem GetTempory_acquire_counterexample:
  "map_of (m_TexturePool World_init) (GetKeyFromParams Engine 4 4 0 UNKNOW TEXTURE_2D) = None \<and>
   GetKeyFromParams Engine 4 4 0 UNKNOW TEXTURE_2D = ''4*4*0*unknow*2d'' \<and>
   map_option (GetKeyFromPtr Engine)
     (heap (snd (GetTempory Engine 4 4 0 UNKNOW TEXTURE_2D World_init))
        (fst (GetTempory Engine 4 4 0 UNKNOW TEXTURE_2D World_init))) = Some ''0*0*0*unknow*2d'' \<and>
   map_option m_ID
     (heap (snd (GetTempory Engine 4 4 0 UNKNOW TEXTURE_2D World_init))
        (fst (GetTempory Engine 4 4 0 UNKNOW TEXTURE_2D World_init))) = Some 0 \<and>
   gl_live (device (snd (GetTempory Engine 4 4 0 UNKNOW TEXTURE_2D World_init))) = {}"
  by (simp add: World_unknow_reached key_unknow World_unknow_def key_Texture_new)
     (simp add: World_init_def Texture_new_def)

subsection \<open>C4: acquire, release, acquire\<close>

text \<open>
  C4, as amended. For a shape whose format is not \<open>UNKNOW\<close>, and a pool in which the top
  of the free stack of that key (when there is one) is a texture of that key:
  \<^verbatim>\<open>GetTempory\<close>, then \<^verbatim>\<open>CollectTempory\<close> of the returned texture, then the same
  \<^verbatim>\<open>GetTempory\<close> again returns the same texture, with the objects and the byte total
  as they were before the release.
\<close>

theorem acquire_release_acquire:
  assumes "format \<noteq> UNKNOW"
    and "\<forall>p rest. map_of (m_TexturePool w) (GetKeyFromParams ex width height depth format type) =
             Some (p # rest) \<longrightarrow>
           (\<exists>t. heap w p = Some t \<and>
                GetKeyFromPtr ex t = GetKeyFromParams ex width height depth format type)"
  shows "\<exists>w2. CollectTempory ex (fst (GetTempory ex width height depth format type w))
                 (snd (GetTempory ex width height depth format type w)) = Some w2 \<and>
           fst (GetTempory ex width height depth format type w2) =
             fst (GetTempory ex width height depth format type w) \<and>
           heap (snd (GetTempory ex width height depth format type w2)) =
             heap (snd (GetTempory ex width height depth format type w)) \<and>
           bm_memory (device (snd (GetTempory ex width height depth format type w2))) =
             bm_memory (device (snd (GetTempory ex width height depth format type w)))"
proof -
  let ?key = "GetKeyFromParams ex width height depth format type"
  let ?p1 = "fst (GetTempory ex width height depth format type w)"
  let ?w1 = "snd (GetTempory ex width height depth format type w)"
  obtain t where t: "heap ?w1 ?p1 = Some t" and key: "GetKeyFromPtr ex t = ?key"
    using GetTempory_returns_keyed [OF assms] by blast
  obtain w2 where w2: "CollectTempory ex ?p1 ?w1 = Some w2"
    using t by (simp add: CollectTempory_Some)
  have frame: "heap w2 = heap ?w1 \<and> device w2 = device ?w1"
    using t w2 by (auto simp: CollectTempory_Some)
  have "map_of (m_TexturePool w2) ?key =
      Some (?p1 # (case map_of (m_TexturePool ?w1) ?key of None \<Rightarrow> [] | Some s \<Rightarrow> s))"
    using CollectTempory_pool [OF t w2, of ?key] key by simp
  then have "GetTempory ex width height depth format type w2 =
      (?p1, w2\<lparr>m_TexturePool :=
                 set_stack ?key (case map_of (m_TexturePool ?w1) ?key of None \<Rightarrow> [] | Some s \<Rightarrow> s)
                   (m_TexturePool w2)\<rparr>)"
    by (rule GetTempory_reuse)
  then show ?thesis
    using w2 frame by simp
qed

theorem acquire_release_acquire_witness:
  "RGBA8 \<noteq> UNKNOW \<and>
   map_of (m_TexturePool World_released) (GetKeyFromParams Engine 4 4 0 RGBA8 TEXTURE_2D) = Some [0] \<and>
   heap World_released 0 = Some Texture_4x4 \<and>
   GetKeyFromPtr Engine Texture_4x4 = GetKeyFromParams Engine 4 4 0 RGBA8 TEXTURE_2D \<and>
   (\<exists>w2. CollectTempory Engine (fst (GetTempory Engine 4 4 0 RGBA8 TEXTURE_2D World_released))
            (snd (GetTempory Engine 4 4 0 RGBA8 TEXTURE_2D World_released)) = Some w2 \<and>
      fst (GetTempory Engine 4 4 0 RGBA8 TEXTURE_2D w2) = 0 \<and>
      bm_memory (device (snd (GetTempory Engine 4 4 0 RGBA8 TEXTURE_2D w2))) = 64) \<and>
   map_of (m_TexturePool World_init) (GetKeyFromParams Engine 4 4 0 RGBA8 TEXTURE_2D) = None \<and>
   (\<exists>w2. CollectTempory Engine (fst (GetTempory Engine 4 4 0 RGBA8 TEXTURE_2D World_init))
            (snd (GetTempory Engine 4 4 0 RGBA8 TEXTURE_2D World_init)) = Some w2 \<and>
      fst (GetTempory Engine 4 4 0 RGBA8 TEXTURE_2D w2) = 0 \<and>
      bm_memory (device (snd (GetTempory Engine 4 4 0 RGBA8 TEXTURE_2D w2))) = 64)"
proof -
  have fmt: "RGBA8 \<noteq> UNKNOW"
    by simp
  have wf: "\<forall>p rest. map_of (m_TexturePool World_released)
               (GetKeyFromParams Engine 4 4 0 RGBA8 TEXTURE_2D) = Some (p # rest) \<longrightarrow>
             (\<exists>t. heap World_released p = Some t \<and>
                  GetKeyFromPtr Engine t = GetKeyFromParams Engine 4 4 0 RGBA8 TEXTURE_2D)"
    by (simp add: key_4x4 World_released_def World_acquired_def key_Texture_4x4)
  have wf_init: "\<forall>p rest. map_of (m_TexturePool World_init)
               (GetKeyFromParams Engine 4 4 0 RGBA8 TEXTURE_2D) = Some (p # rest) \<longrightarrow>
             (\<exists>t. heap World_init p = Some t \<and>
                  GetKeyFromPtr Engine t = GetKeyFromParams Engine 4 4 0 RGBA8 TEXTURE_2D)"
    by (simp add: World_init_def)
  have facts: "map_of (m_TexturePool World_released)
         (GetKeyFromParams Engine 4 4 0 RGBA8 TEXTURE_2D) = Some [0] \<and>
       heap World_released 0 = Some Texture_4x4 \<and>
       GetKeyFromPtr Engine Texture_4x4 = GetKeyFromParams Engine 4 4 0 RGBA8 TEXTURE_2D \<and>
       map_of (m_TexturePool World_init) (GetKeyFromParams Engine 4 4 0 RGBA8 TEXTURE_2D) = None"
    by (simp add: key_4x4 World_released_def World_acquired_def key_Texture_4x4 World_init_def)
  show ?thesis
    using facts acquire_release_acquire [OF fmt wf] acquire_release_acquire [OF fmt wf_init]
    by (auto simp: World_released_reuse World_acquired_reached World_acquired_def)
qed

theorem acquire_release_acquire_counterexample:
  "fst (GetTempory Engine 4 4 0 UNKNOW TEXTURE_2D World_init) = 0 \<and>
   CollectTempory Engine 0 (snd (GetTempory Engine 4 4 0 UNKNOW TEXTURE_2D World_init)) =
     Some World_unknow_released \<and>
   fst (GetTempory Engine 4 4 0 UNKNOW TEXTURE_2D World_unknow_released) = 1 \<and>
   ReleaseTempories Engine World_released = World_stale \<and>
   fst (GetTempory Engine 4 4 0 RGBA8 TEXTURE_2D World_stale) = 0 \<and>
   CollectTempory Engine 0 (snd (GetTempory Engine 4 4 0 RGBA8 TEXTURE_2D World_stale)) =
     Some World_stale_released \<and>
   fst (GetTempory Engine 4 4 0 RGBA8 TEXTURE_2D World_stale_released) = 1"
  by (simp add: World_unknow_reached World_unknow_released_reached World_stale_reached
      World_stale_reuse World_stale_released_reached)
     (simp add: GetTempory_def key_unknow key_4x4 World_unknow_released_def World_unknow_def
       World_stale_released_def World_stale_def World_released_def World_acquired_def
       Texture_Create_def BufferManager_Add_def Let_def)

subsection \<open>C2: releasing the pool\<close>

lemma ReleaseTempories_while_fold:
  "ReleaseTempories_while ex stack w = ([], fold (BufferManager_Release ex) stack w)"
  by (induction stack arbitrary: w) simp_all

lemma ReleaseTempories_for_fold:
  "ReleaseTempories_for ex pairs w =
     fold (BufferManager_Release ex) (concat (map snd pairs)) w"
  by (induction pairs arbitrary: w) (simp_all add: ReleaseTempories_while_fold)

lemma ReleaseTempories_fold:
  "ReleaseTempories ex w = fold (BufferManager_Release ex) (pooled w) w"
  by (simp add: ReleaseTempories_def ReleaseTempories_for_fold pooled_def)

lemma BufferManager_Release_frame:
  "m_TexturePool (BufferManager_Release ex p w) = m_TexturePool w \<and>
   bm_buffers (BufferManager_Release ex p w) = bm_buffers w \<and>
   next_ptr (BufferManager_Release ex p w) = next_ptr w \<and>
   gl_counter (device (BufferManager_Release ex p w)) = gl_counter (device w)"
  by (cases "heap w p"; cases "m_ID (the (heap w p)) = 0")
     (auto simp: BufferManager_Release_def invoke_def Let_def DeleteBuffer_unallocated
       DeleteBuffer_allocated)

lemma BufferManager_Release_other:
  "q \<noteq> p \<Longrightarrow> heap (BufferManager_Release ex p w) q = heap w q"
  by (auto simp: BufferManager_Release_def invoke_def Let_def split: option.splits)

lemma BufferManager_Release_deletes:
  "p \<in> bm_buffers w \<Longrightarrow> heap w p = Some t \<Longrightarrow>
   \<exists>t'. heap (BufferManager_Release ex p w) p = Some t' \<and> m_ID t' = 0"
  by (cases "m_ID t = 0")
     (simp_all add: BufferManager_Release_def invoke_def Let_def DeleteBuffer_unallocated
       DeleteBuffer_allocated)

lemma BufferManager_Release_keeps_deleted:
  "heap w q = Some t \<Longrightarrow> m_ID t = 0 \<Longrightarrow>
   \<exists>t'. heap (BufferManager_Release ex p w) q = Some t' \<and> m_ID t' = 0"
proof (cases "q = p")
  case True
  assume "heap w q = Some t" and "m_ID t = 0"
  with True show ?thesis
    by (simp add: BufferManager_Release_def invoke_def Let_def DeleteBuffer_unallocated)
next
  case False
  assume "heap w q = Some t" and "m_ID t = 0"
  with False show ?thesis
    by (simp add: BufferManager_Release_other)
qed

lemma BufferManager_Release_memory:
  "bm_memory (device (BufferManager_Release ex p w)) = bm_memory (device w) - freed_bytes ex w p"
  by (cases "heap w p"; cases "m_ID (the (heap w p)) = 0")
     (auto simp: BufferManager_Release_def invoke_def Let_def DeleteBuffer_unallocated
       DeleteBuffer_allocated freed_bytes_def)

lemma freed_bytes_Release:
  "freed_bytes ex (BufferManager_Release ex p w) q = (if q = p then 0 else freed_bytes ex w q)"
proof (cases "q = p")
  case True
  then show ?thesis
    by (cases "heap w p"; cases "m_ID (the (heap w p)) = 0")
       (auto simp: BufferManager_Release_def invoke_def Let_def DeleteBuffer_unallocated
         DeleteBuffer_allocated freed_bytes_def)
next
  case False
  then show ?thesis
    using BufferManager_Release_frame [of ex p w]
    by (simp add: freed_bytes_def BufferManager_Release_other split: option.splits)
qed


lemma fold_Release_frame:
  "m_TexturePool (fold (BufferManager_Release ex) ps w) = m_TexturePool w \<and>
   bm_buffers (fold (BufferManager_Release ex) ps w) = bm_buffers w \<and>
   next_ptr (fold (BufferManager_Release ex) ps w) = next_ptr w \<and>
   gl_counter (device (fold (BufferManager_Release ex) ps w)) = gl_counter (device w)"
  by (induction ps arbitrary: w) (simp_all add: BufferManager_Release_frame)

lemma fold_Release_other:
  "q \<notin> set ps \<Longrightarrow> heap (fold (BufferManager_Release ex) ps w) q = heap w q"
  by (induction ps arbitrary: w) (simp_all add: BufferManager_Release_other)

lemma fold_Release_keeps_deleted:
  "heap w q = Some t \<Longrightarrow> m_ID t = 0 \<Longrightarrow>
   \<exists>t'. heap (fold (BufferManager_Release ex) ps w) q = Some t' \<and> m_ID t' = 0"
proof (induction ps arbitrary: w t)
  case Nil
  then show ?case by simp
next
  case (Cons a ps)
  from BufferManager_Release_keeps_deleted [OF Cons.prems, of ex a]
  obtain t' where "heap (BufferManager_Release ex a w) q = Some t'" and "m_ID t' = 0"
    by blast
  then show ?case
    using Cons.IH by simp
qed

lemma fold_Release_deletes:
  "p \<in> set ps \<Longrightarrow> p \<in> bm_buffers w \<Longrightarrow> heap w p = Some t \<Longrightarrow>
   \<exists>t'. heap (fold (BufferManager_Release ex) ps w) p = Some t' \<and> m_ID t' = 0"
proof (induction ps arbitrary: w t)
  case Nil
  then show ?case by simp
next
  case (Cons a ps)
  show ?case
  proof (cases "p = a")
    case True
    from BufferManager_Release_deletes [OF Cons.prems(2,3), of ex]
    obtain t' where "heap (BufferManager_Release ex p w) p = Some t'" and "m_ID t' = 0"
      by blast
    then show ?thesis
      using True fold_Release_keeps_deleted [of "BufferManager_Release ex p w" p t' ex ps]
      by simp
  next
    case False
    with Cons.prems have "p \<in> set ps"
      and "p \<in> bm_buffers (BufferManager_Release ex a w)"
      and "heap (BufferManager_Release ex a w) p = Some t"
      by (simp_all add: BufferManager_Release_frame BufferManager_Release_other)
    then show ?thesis
      using Cons.IH by simp
  qed
qed

lemma sum_skip_one:
  fixes f :: "nat \<Rightarrow> int"
  assumes "finite S"
  shows "(\<Sum>q\<in>S. if q = a then 0 else f q) = (\<Sum>q\<in>S - {a}. f q)"
proof -
  have "(\<Sum>q\<in>S. if q = a then 0 else f q) = (\<Sum>q\<in>S - {a}. if q = a then 0 else f q)"
    using assms by (intro sum.mono_neutral_right) auto
  also have "\<dots> = (\<Sum>q\<in>S - {a}. f q)"
    by (rule sum.cong) auto
  finally show ?thesis .
qed

lemma fold_Release_memory:
  "bm_memory (device (fold (BufferManager_Release ex) ps w)) =
     bm_memory (device w) - (\<Sum>p\<in>set ps. freed_bytes ex w p)"
proof (induction ps arbitrary: w)
  case Nil
  then show ?case by simp
next
  case (Cons a ps)
  have "bm_memory (device (fold (BufferManager_Release ex) (a # ps) w)) =
      bm_memory (device (BufferManager_Release ex a w)) -
        (\<Sum>p\<in>set ps. freed_bytes ex (BufferManager_Release ex a w) p)"
    using Cons.IH by simp
  also have "\<dots> = bm_memory (device w) - freed_bytes ex w a -
      (\<Sum>p\<in>set ps - {a}. freed_bytes ex w p)"
    by (simp add: BufferManager_Release_memory freed_bytes_Release sum_skip_one)
  also have "\<dots> = bm_memory (device w) - (\<Sum>p\<in>set (a # ps). freed_bytes ex w p)"
    by (simp add: sum.insert_remove)
  finally show ?case .
qed

lemma DeleteBuffer_fst_fixed:
  "m_ID t = 0 \<Longrightarrow> m_Dirty t \<Longrightarrow> fst (DeleteBuffer ex (t, d)) = t"
  by (simp add: DeleteBuffer_unallocated)

lemma DeleteBuffer_fst_deleted:
  "m_ID (fst (DeleteBuffer ex (t, d))) = 0 \<and> m_Dirty (fst (DeleteBuffer ex (t, d))) \<and>
   (m_ID t \<noteq> 0 \<longrightarrow>
      m_Width (fst (DeleteBuffer ex (t, d))) = 0 \<and> m_Height (fst (DeleteBuffer ex (t, d))) = 0 \<and>
      m_Format (fst (DeleteBuffer ex (t, d))) = UNKNOW \<and>
      m_FilePath (fst (DeleteBuffer ex (t, d))) = [])"
  by (cases "m_ID t = 0") (simp_all add: DeleteBuffer_unallocated DeleteBuffer_allocated)

lemma DeleteBuffer_fst_device:
  "fst (DeleteBuffer ex (t, d)) = fst (DeleteBuffer ex (t, d'))"
  by (cases "m_ID t = 0") (simp_all add: DeleteBuffer_unallocated DeleteBuffer_allocated)

lemma BufferManager_Release_at:
  "p \<in> bm_buffers w \<Longrightarrow> heap w p = Some t \<Longrightarrow>
   heap (BufferManager_Release ex p w) p = Some (fst (DeleteBuffer ex (t, device w)))"
  by (simp add: BufferManager_Release_def invoke_def Let_def)

lemma BufferManager_Release_keeps_fixed:
  assumes "heap w q = Some t" and "m_ID t = 0" and "m_Dirty t"
  shows "heap (BufferManager_Release ex p w) q = Some t"
proof (cases "q = p")
  case True
  with assms show ?thesis
    by (simp add: BufferManager_Release_def invoke_def Let_def DeleteBuffer_unallocated)
next
  case False
  with assms show ?thesis
    by (simp add: BufferManager_Release_other)
qed

lemma fold_Release_keeps_fixed:
  "heap w q = Some t \<Longrightarrow> m_ID t = 0 \<Longrightarrow> m_Dirty t \<Longrightarrow>
   heap (fold (BufferManager_Release ex) ps w) q = Some t"
  by (induction ps arbitrary: w) (simp_all add: BufferManager_Release_keeps_fixed)

lemma fold_Release_result:
  "p \<in> set ps \<Longrightarrow> p \<in> bm_buffers w \<Longrightarrow> heap w p = Some t \<Longrightarrow>
   heap (fold (BufferManager_Release ex) ps w) p = Some (fst (DeleteBuffer ex (t, d0)))"
proof (induction ps arbitrary: w)
  case Nil
  then show ?case by simp
next
  case (Cons a ps)
  show ?case
  proof (cases "p = a")
    case True
    have "heap (BufferManager_Release ex p w) p = Some (fst (DeleteBuffer ex (t, d0)))"
      using BufferManager_Release_at [OF Cons.prems(2,3), of ex]
        DeleteBuffer_fst_device [of ex t "device w" d0] by simp
    then have "heap (fold (BufferManager_Release ex) ps (BufferManager_Release ex p w)) p =
        Some (fst (DeleteBuffer ex (t, d0)))"
      using DeleteBuffer_fst_deleted [of ex t d0] by (intro fold_Release_keeps_fixed) simp_all
    with True show ?thesis by simp
  next
    case False
    with Cons.prems have "p \<in> set ps"
      and "p \<in> bm_buffers (BufferManager_Release ex a w)"
      and "heap (BufferManager_Release ex a w) p = Some t"
      by (simp_all add: BufferManager_Release_frame BufferManager_Release_other)
    then show ?thesis
      using Cons.IH by simp
  qed
qed

text \<open>
  C2, as amended. \<^verbatim>\<open>ReleaseTempories\<close> deallocates the textures on the free stacks,
  across all shape keys: every registered texture on a stack ends as \<^verbatim>\<open>DeleteBuffer\<close>
  leaves it, with buffer id 0, dirty, and, when it had a buffer, width and height 0,
  format \<open>UNKNOW\<close> and no file path. Textures that are on no stack (the checked-out
  ones among them) are left as they are. The byte total is not reset: it drops by the
  footprints of the registered, allocated textures that were on the stacks, each counted
  once. Nothing is allocated.
\<close>

theorem ReleaseTempories_releases_free:
  "(\<forall>p\<in>set (pooled w). p \<in> bm_buffers w \<longrightarrow>
      (\<forall>t. heap w p = Some t \<longrightarrow>
         (\<exists>t'. heap (ReleaseTempories ex w) p = Some t' \<and> m_ID t' = 0))) \<and>
   (\<forall>q. q \<notin> set (pooled w) \<longrightarrow> heap (ReleaseTempories ex w) q = heap w q) \<and>
   bm_memory (device (ReleaseTempories ex w)) =
     bm_memory (device w) - (\<Sum>p\<in>set (pooled w). freed_bytes ex w p) \<and>
   gl_counter (device (ReleaseTempories ex w)) = gl_counter (device w) \<and>
   (\<forall>p\<in>set (pooled w). p \<in> bm_buffers w \<longrightarrow>
      (\<forall>t. heap w p = Some t \<longrightarrow>
         heap (ReleaseTempories ex w) p = Some (fst (DeleteBuffer ex (t, device w))) \<and>
         m_Dirty (fst (DeleteBuffer ex (t, device w))) \<and>
         (m_ID t \<noteq> 0 \<longrightarrow>
            m_Width (fst (DeleteBuffer ex (t, device w))) = 0 \<and>
            m_Height (fst (DeleteBuffer ex (t, device w))) = 0 \<and>
            m_Format (fst (DeleteBuffer ex (t, device w))) = UNKNOW \<and>
            m_FilePath (fst (DeleteBuffer ex (t, device w))) = []))) \<and>
   set (pooled w) = (\<Union>(k, s)\<in>set (m_TexturePool w). set s) \<and>
   (\<forall>p. freed_bytes ex w p =
      (case heap w p of
         None \<Rightarrow> 0
       | Some t \<Rightarrow>
           if p \<in> bm_buffers w \<and> m_ID t \<noteq> 0
           then uint ((m_Width t * m_Height t * (m_Depth t + 1) *
                       TextureBitPerPixel ex (m_Format t)) div 8)
           else 0))"
proof -
  have old: "(\<forall>p\<in>set (pooled w). p \<in> bm_buffers w \<longrightarrow>
      (\<forall>t. heap w p = Some t \<longrightarrow>
         (\<exists>t'. heap (ReleaseTempories ex w) p = Some t' \<and> m_ID t' = 0))) \<and>
   (\<forall>q. q \<notin> set (pooled w) \<longrightarrow> heap (ReleaseTempories ex w) q = heap w q) \<and>
   bm_memory (device (ReleaseTempories ex w)) =
     bm_memory (device w) - (\<Sum>p\<in>set (pooled w). freed_bytes ex w p) \<and>
   gl_counter (device (ReleaseTempories ex w)) = gl_counter (device w)"
    using fold_Release_deletes [of _ "pooled w" w _ ex] fold_Release_other [of _ "pooled w" ex w]
      fold_Release_memory [of ex "pooled w" w] fold_Release_frame [of ex "pooled w" w]
    by (simp add: ReleaseTempories_fold)
  have result: "\<forall>p\<in>set (pooled w). p \<in> bm_buffers w \<longrightarrow>
      (\<forall>t. heap w p = Some t \<longrightarrow>
         heap (ReleaseTempories ex w) p = Some (fst (DeleteBuffer ex (t, device w))) \<and>
         m_Dirty (fst (DeleteBuffer ex (t, device w))) \<and>
         (m_ID t \<noteq> 0 \<longrightarrow>
            m_Width (fst (DeleteBuffer ex (t, device w))) = 0 \<and>
            m_Height (fst (DeleteBuffer ex (t, device w))) = 0 \<and>
            m_Format (fst (DeleteBuffer ex (t, device w))) = UNKNOW \<and>
            m_FilePath (fst (DeleteBuffer ex (t, device w))) = []))"
    using fold_Release_result [of _ "pooled w" w _ ex "device w"]
      DeleteBuffer_fst_deleted [of ex _ "device w"]
    by (simp add: ReleaseTempories_fold)
  have stacks: "set (pooled w) = (\<Union>(k, s)\<in>set (m_TexturePool w). set s)"
    by (auto simp: pooled_def)
  have bytes: "\<forall>p. freed_bytes ex w p =
      (case heap w p of
         None \<Rightarrow> 0
       | Some t \<Rightarrow>
           if p \<in> bm_buffers w \<and> m_ID t \<noteq> 0
           then uint ((m_Width t * m_Height t * (m_Depth t + 1) *
                       TextureBitPerPixel ex (m_Format t)) div 8)
           else 0)"
    by (simp add: freed_bytes_def footprint_def split: option.splits)
  from old result stacks bytes show ?thesis
    by (elim conjE) (intro conjI; assumption)
qed

lemma key_8x8: "GetKeyFromParams Engine 8 8 0 RGBA8 TEXTURE_2D = ''8*8*0*rgba8*2d''"
  by (simp add: GetKeyFromParams_def show_int_def show_nat_digit digit_char_def Engine_fields)

lemma World_mixed_reached:
  "GetTempory Engine 8 8 0 RGBA8 TEXTURE_2D World_released = (1, World_mixed)"
  by (simp add: GetTempory_create key_8x8 World_released_def World_acquired_def World_mixed_def
      Texture_8x8_def CreateEmpty_allocates DeleteBuffer_unallocated Texture_new_def Let_def
      Engine_fields)
     (auto simp: numeral_2_eq_2)

lemma ReleaseTempories_World_mixed:
  "ReleaseTempories Engine World_mixed =
     World_mixed\<lparr>heap := [0 \<mapsto> Texture_4x4\<lparr>m_Dirty := True, m_ID := 0, m_Width := 0, m_Height := 0,
                                  m_Format := UNKNOW, m_FilePath := []\<rparr>,
                           1 \<mapsto> Texture_8x8],
                 device := \<lparr>bm_memory = 256, gl_counter = 2, gl_live = {2}\<rparr>\<rparr>"
  by (simp add: ReleaseTempories_def World_mixed_def BufferManager_Release_def invoke_def
      Let_def DeleteBuffer_allocated Texture_4x4_def footprint_def Engine_fields fun_upd_twist)

theorem ReleaseTempories_releases_free_witness:
  "0 \<in> set (pooled World_mixed) \<and> 0 \<in> bm_buffers World_mixed \<and>
   heap World_mixed 0 = Some Texture_4x4 \<and>
   map_option m_ID (heap (ReleaseTempories Engine World_mixed) 0) = Some 0 \<and>
   1 \<notin> set (pooled World_mixed) \<and>
   heap (ReleaseTempories Engine World_mixed) 1 = heap World_mixed 1 \<and>
   (\<Sum>p\<in>set (pooled World_mixed). freed_bytes Engine World_mixed p) = 64 \<and>
   bm_memory (device (ReleaseTempories Engine World_mixed)) = 320 - 64 \<and>
   heap (ReleaseTempories Engine World_mixed) 0 = Some Texture_stale \<and>
   m_ID Texture_4x4 \<noteq> 0 \<and> m_Width Texture_stale = 0 \<and> m_Format Texture_stale = UNKNOW"
  using ReleaseTempories_releases_free [of World_mixed Engine]
  by (auto simp: pooled_def World_mixed_def freed_bytes_def footprint_def Texture_4x4_def
      Texture_stale_def Engine_fields DeleteBuffer_allocated)

theorem ReleaseTempories_releases_free_counterexample:
  "GetTempory Engine 4 4 0 RGBA8 TEXTURE_2D World_init = (0, World_acquired) \<and>
   CollectTempory Engine 0 World_acquired = Some World_released \<and>
   GetTempory Engine 8 8 0 RGBA8 TEXTURE_2D World_released = (1, World_mixed) \<and>
   pooled World_mixed = [0] \<and>
   bm_memory (device World_mixed) = 320 \<and>
   bm_memory (device (ReleaseTempories Engine World_mixed)) = 256 \<and>
   map_option m_ID (heap (ReleaseTempories Engine World_mixed) 1) = Some 2 \<and>
   gl_live (device (ReleaseTempories Engine World_mixed)) = {2} \<and>
   m_TexturePool (ReleaseTempories Engine World_mixed) = [(''4*4*0*rgba8*2d'', [0])]"
  by (simp add: World_acquired_reached World_released_reached World_mixed_reached
      ReleaseTempories_World_mixed)
     (simp add: World_mixed_def Texture_8x8_def pooled_def)

subsection \<open>C7: when Load fails\<close>

text \<open>
  C7. \<^verbatim>\<open>Load\<close> returns false exactly when the node is not an object although
  \<open>object\<close> is set, when the base \<^verbatim>\<open>Entity::Load\<close> fails, or when no \<open>path\<close>
  member is read and the \<open>format\<close> member, the \<open>width\<close> member or the \<open>height\<close>
  member is not read; in every other case it returns true. A member is read when
  \<^verbatim>\<open>LoadMemberValue\<close> returns true for it.
\<close>

theorem Load_returns_false_iff:
  "\<not> fst (Load ex rd wrapper object td) \<longleftrightarrow>
     (object \<and> \<not> IsObject rd wrapper) \<or>
     \<not> fst (Entity_Load rd wrapper (m_Name (fst td))) \<or>
     (LoadMemberValue_string rd wrapper ''path'' = None \<and>
        (LoadMemberValue_string rd wrapper ''format'' = None \<or>
         LoadMemberValue_int rd wrapper ''width'' = None \<or>
         LoadMemberValue_int rd wrapper ''height'' = None))"
proof (cases "object \<and> \<not> IsObject rd wrapper")
  case True
  then show ?thesis
    by (simp add: Load_def)
next
  case guard: False
  show ?thesis
  proof (cases "fst (Entity_Load rd wrapper (m_Name (fst td)))")
    case False
    with guard show ?thesis
      by (simp add: Load_def Let_def)
  next
    case entity: True
    show ?thesis
    proof (cases "LoadMemberValue_string rd wrapper ''path''")
      case (Some path)
      with guard entity show ?thesis
        by (simp add: Load_def Let_def)
    next
      case path: None
      show ?thesis
      proof (cases "LoadMemberValue_string rd wrapper ''format''")
        case None
        with guard entity path show ?thesis
          by (simp add: Load_def Let_def)
      next
        case format: (Some fstr)
        show ?thesis
        proof (cases "LoadMemberValue_int rd wrapper ''width''")
          case None
          with guard entity path format show ?thesis
            by (simp add: Load_def Let_def)
        next
          case width: (Some x)
          show ?thesis
          proof (cases "LoadMemberValue_int rd wrapper ''height''")
            case None
            with guard entity path format width show ?thesis
              by (simp add: Load_def Let_def)
          next
            case (Some y)
            with guard entity path format width show ?thesis
              by (simp add: Load_def Let_def)
          qed
        qed
      qed
    qed
  qed
qed

theorem Load_returns_false_iff_witness:
  "IsObject Document_Reader Document_sized \<and>
   fst (Entity_Load Document_Reader Document_sized ''a'') \<and>
   LoadMemberValue_string Document_Reader Document_sized ''format'' = Some ''rgba8'' \<and>
   LoadMemberValue_int Document_Reader Document_sized ''width'' = Some 4 \<and>
   LoadMemberValue_int Document_Reader Document_sized ''height'' = Some 4 \<and>
   fst (Load Engine Document_Reader Document_sized True (Texture_new Engine ''a'', device World_init)) \<and>
   LoadMemberValue_string Document_Reader Document_unsized ''path'' = None \<and>
   LoadMemberValue_int Document_Reader Document_unsized ''height'' = None \<and>
   \<not> fst (Load Engine Document_Reader Document_unsized True
            (Texture_new Engine ''a'', device World_init))"
  using Load_returns_false_iff [of Engine Document_Reader Document_sized True
      "(Texture_new Engine ''a'', device World_init)"]
    Load_returns_false_iff [of Engine Document_Reader Document_unsized True
      "(Texture_new Engine ''a'', device World_init)"]
  by (simp add: Document_Reader_def Document_sized_def Document_unsized_def)

subsection \<open>C6: save, then load\<close>

lemma Save_document:
  "m_FilePath t = [] \<Longrightarrow>
   Save ex t True [] =
     [T_StartObject, T_Key ''name'', T_String (m_Name t),
      T_Key ''format'', T_String (TextureFormatToString ex (m_Format t)),
      T_Key ''type'', T_String (TextureTypeToString ex (m_Type t)),
      T_Key ''width'', T_Int (m_Width t), T_Key ''height'', T_Int (m_Height t),
      T_Key ''depth'', T_Int (m_Depth t),
      T_Key ''borderColor'', T_Color (m_BorderColor t), T_Key ''mipmap'', T_Bool (m_Mipmap t),
      T_Key ''filter'', T_String (FilterModeToString ex (m_FilterMode t)),
      T_Key ''wrap'', T_String (WrapModeToString ex (m_WrapMode t)), T_EndObject]"
  by (simp add: Save_def Let_def StartObject_def EndObject_def SaveKey_def SaveValue_def
      Entity_Save_def)

lemma Document_Reader_Save:
  assumes "m_FilePath t = []"
  shows "IsObject Document_Reader (Save ex t True [])"
    and "Entity_Load Document_Reader (Save ex t True []) n = (True, m_Name t)"
    and "LoadMemberValue_string Document_Reader (Save ex t True []) ''path'' = None"
    and "LoadMemberValue_string Document_Reader (Save ex t True []) ''format'' =
           Some (TextureFormatToString ex (m_Format t))"
    and "LoadMemberValue_string Document_Reader (Save ex t True []) ''type'' =
           Some (TextureTypeToString ex (m_Type t))"
    and "LoadMemberValue_string Document_Reader (Save ex t True []) ''filter'' =
           Some (FilterModeToString ex (m_FilterMode t))"
    and "LoadMemberValue_string Document_Reader (Save ex t True []) ''wrap'' =
           Some (WrapModeToString ex (m_WrapMode t))"
    and "LoadMemberValue_int Document_Reader (Save ex t True []) ''width'' = Some (m_Width t)"
    and "LoadMemberValue_int Document_Reader (Save ex t True []) ''height'' = Some (m_Height t)"
    and "LoadMemberValue_int Document_Reader (Save ex t True []) ''depth'' = Some (m_Depth t)"
    and "LoadMemberValue_bool Document_Reader (Save ex t True []) ''mipmap'' = Some (m_Mipmap t)"
    and "LoadMemberValue_Color Document_Reader (Save ex t True []) ''borderColor'' =
           Some (m_BorderColor t)"
  using assms by (simp_all add: Save_document Document_Reader_def)

lemma DeleteBuffer_keeps:
  "m_FilterMode (fst (DeleteBuffer ex td)) = m_FilterMode (fst td) \<and>
   m_WrapMode (fst (DeleteBuffer ex td)) = m_WrapMode (fst td) \<and>
   m_BorderColor (fst (DeleteBuffer ex td)) = m_BorderColor (fst td) \<and>
   m_Depth (fst (DeleteBuffer ex td)) = m_Depth (fst td) \<and>
   m_Type (fst (DeleteBuffer ex td)) = m_Type (fst td) \<and>
   m_Mipmap (fst (DeleteBuffer ex td)) = m_Mipmap (fst td)"
  by (simp add: DeleteBuffer_def Let_def)

lemma Load_Save:
  assumes "m_FilePath t = []"
  shows "Load ex Document_Reader (Save ex t True []) True td =
           (True,
            CreateEmpty ex (m_Width t) (m_Height t) (m_Depth t)
              (TextureFormatFromString ex (TextureFormatToString ex (m_Format t)))
              (TextureTypeFromString ex (TextureTypeToString ex (m_Type t))) (m_Mipmap t)
              (SetWrapMode (WrapModeFromString ex (WrapModeToString ex (m_WrapMode t)))
                 (SetFilterMode (FilterModeFromString ex (FilterModeToString ex (m_FilterMode t)))
                    (SetBorderColor (m_BorderColor t) ((fst td)\<lparr>m_Name := m_Name t\<rparr>))),
               snd td))"
  by (simp add: Load_def Let_def Document_Reader_Save [OF assms])

text \<open>
  C6, as amended. For every texture without a file path whose format is not \<open>UNKNOW\<close>,
  \<^verbatim>\<open>Save\<close> followed by \<^verbatim>\<open>Load\<close> of the saved document, into any texture object,
  succeeds and yields the same format, type, width, height, depth, border colour,
  mipmap flag, filter mode and wrap mode, provided \<^verbatim>\<open>EnumUtil\<close> reads back the names
  it writes for the texture's format, type, filter mode and wrap mode.
\<close>

theorem Save_Load_roundtrip:
  assumes "m_FilePath t = []" and "m_Format t \<noteq> UNKNOW"
    and "TextureFormatFromString ex (TextureFormatToString ex (m_Format t)) = m_Format t"
    and "TextureTypeFromString ex (TextureTypeToString ex (m_Type t)) = m_Type t"
    and "FilterModeFromString ex (FilterModeToString ex (m_FilterMode t)) = m_FilterMode t"
    and "WrapModeFromString ex (WrapModeToString ex (m_WrapMode t)) = m_WrapMode t"
  shows "(let r = Load ex Document_Reader (Save ex t True []) True (t0, d)
          in fst r \<and>
             m_Format (fst (snd r)) = m_Format t \<and> m_Type (fst (snd r)) = m_Type t \<and>
             m_Width (fst (snd r)) = m_Width t \<and> m_Height (fst (snd r)) = m_Height t \<and>
             m_Depth (fst (snd r)) = m_Depth t \<and>
             m_BorderColor (fst (snd r)) = m_BorderColor t \<and>
             m_Mipmap (fst (snd r)) = m_Mipmap t \<and>
             m_FilterMode (fst (snd r)) = m_FilterMode t \<and>
             m_WrapMode (fst (snd r)) = m_WrapMode t)"
  using assms(2-)
  by (simp add: Load_Save [OF assms(1)] Let_def CreateEmpty_allocates DeleteBuffer_keeps
      SetWrapMode_def SetFilterMode_def SetBorderColor_def)


theorem Save_Load_roundtrip_witness:
  "m_FilePath Texture_4x4 = [] \<and> m_Format Texture_4x4 \<noteq> UNKNOW \<and>
   TextureFormatFromString Engine (TextureFormatToString Engine (m_Format Texture_4x4)) =
     m_Format Texture_4x4 \<and>
   TextureTypeFromString Engine (TextureTypeToString Engine (m_Type Texture_4x4)) =
     m_Type Texture_4x4 \<and>
   FilterModeFromString Engine (FilterModeToString Engine (m_FilterMode Texture_4x4)) =
     m_FilterMode Texture_4x4 \<and>
   WrapModeFromString Engine (WrapModeToString Engine (m_WrapMode Texture_4x4)) =
     m_WrapMode Texture_4x4 \<and>
   fst (Load Engine Document_Reader (Save Engine Texture_4x4 True []) True
          (Texture_new Engine ''copy'', device World_acquired)) \<and>
   m_Format (fst (snd (Load Engine Document_Reader (Save Engine Texture_4x4 True []) True
          (Texture_new Engine ''copy'', device World_acquired)))) = RGBA8 \<and>
   m_Width (fst (snd (Load Engine Document_Reader (Save Engine Texture_4x4 True []) True
          (Texture_new Engine ''copy'', device World_acquired)))) = 4 \<and>
   m_BorderColor (fst (snd (Load Engine Document_Reader (Save Engine Texture_4x4 True []) True
          (Texture_new Engine ''copy'', device World_acquired)))) = Color 0 0 0 0"
proof -
  have hyps: "m_FilePath Texture_4x4 = []" "m_Format Texture_4x4 \<noteq> UNKNOW"
    "TextureFormatFromString Engine (TextureFormatToString Engine (m_Format Texture_4x4)) =
       m_Format Texture_4x4"
    "TextureTypeFromString Engine (TextureTypeToString Engine (m_Type Texture_4x4)) =
       m_Type Texture_4x4"
    "FilterModeFromString Engine (FilterModeToString Engine (m_FilterMode Texture_4x4)) =
       m_FilterMode Texture_4x4"
    "WrapModeFromString Engine (WrapModeToString Engine (m_WrapMode Texture_4x4)) =
       m_WrapMode Texture_4x4"
    by (simp_all add: Texture_4x4_def Engine_fields)
  show ?thesis
    using hyps Save_Load_roundtrip [OF hyps, of "Texture_new Engine ''copy''"
        "device World_acquired"]
    by (simp add: Let_def) (simp add: Texture_4x4_def)
qed

lemma Texture_dropped_fields:
  "Texture_dropped =
     \<lparr>m_Name = ''layers'', m_ID = 0, m_Width = 0, m_Height = 0, m_Depth = 2, m_Format = UNKNOW,
      m_Type = TEXTURE_2D_ARRAY, m_TypeUint = 35866, m_FilterMode = LINEAR,
      m_WrapMode = REPEAT, m_BorderColor = Color 0 0 0 0, m_Mipmap = True, m_Dirty = True,
      m_FilePath = []\<rparr>"
  by (simp add: Texture_dropped_def CreateEmpty_allocates Let_def DeleteBuffer_unallocated
      DeleteBuffer_allocated Texture_new_def Engine_fields)

theorem Save_Load_roundtrip_counterexample:
  "m_FilePath Texture_dropped = [] \<and> m_Depth Texture_dropped = 2 \<and> m_Mipmap Texture_dropped \<and>
   m_Type Texture_dropped = TEXTURE_2D_ARRAY \<and>
   fst (Load Engine Document_Reader (Save Engine Texture_dropped True []) True
          (Texture_new Engine ''copy'', device World_init)) \<and>
   m_Depth (fst (snd (Load Engine Document_Reader (Save Engine Texture_dropped True []) True
          (Texture_new Engine ''copy'', device World_init)))) = 0 \<and>
   \<not> m_Mipmap (fst (snd (Load Engine Document_Reader (Save Engine Texture_dropped True []) True
          (Texture_new Engine ''copy'', device World_init)))) \<and>
   m_Type (fst (snd (Load Engine Document_Reader (Save Engine Texture_dropped True []) True
          (Texture_new Engine ''copy'', device World_init)))) = TEXTURE_2D"
proof -
  have path: "m_FilePath Texture_dropped = []"
    by (simp add: Texture_dropped_fields)
  show ?thesis
    by (simp add: Load_Save [OF path])
       (simp add: Texture_dropped_fields Engine_fields CreateEmpty_declines
         DeleteBuffer_unallocated SetWrapMode_def SetFilterMode_def SetBorderColor_def
         Texture_new_def)
qed

end
